theory Spec2Isabelle
  imports Main "HOL-Library.Char_ord" "HOL-Library.List_Lexorder"
begin

section \<open>Playblast Quad View: a shallow embedding of quad_view_playblast.py\<close>

text \<open>
  The add-on is a set of Blender operators. Each operator's \<open>execute\<close> (and \<open>modal\<close>)
  method is embedded as a function on an explicit \<open>world\<close>: the part of the host's state
  the operators read and write. An operator returns a status (\<open>{'FINISHED'}\<close>, ...), or
  raises a Python exception (\<open>Inl\<close>).

  Host commands are modelled as follows.
  \<^item> Every host command the add-on invokes is appended to the log \<open>calls\<close>, and every
    \<open>self.report\<close> to \<open>reports\<close>.
  \<^item> A host command that the source wraps in \<open>try\<close>/\<open>except\<close> may raise: the field
    \<open>raises\<close> says, for each such command, whether it does and with which message.
  \<^item> A failure that the modelled filesystem or image table decides (listing a path that is
    not a directory, creating a directory over a file, loading a file that is no image)
    is raised as the Python library raises it.
  \<^item> The launch of the platform's file browser (\<open>os.startfile\<close>, \<open>subprocess.Popen\<close>),
    which the source does not guard, may raise as well, for want of the launcher: the
    field \<open>launcher_raises\<close> says whether it does and with which exception.
  \<^item> An assignment to a property for which the host has a range stores the nearest
    value of the range.
  \<^item> Every other host command is taken to succeed.

  Objects the operators hold references to are referred to by position (regions in an
  area, scenes in the scene collection) or by address (spaces in the store \<open>spaces\<close>).
  Image datablocks are not kept: the combiner removes the one it loads as soon as it has
  read its size.
\<close>

subsection \<open>Python strings and \<open>os.path\<close> (POSIX flavour)\<close>

definition startswith :: "string \<Rightarrow> string \<Rightarrow> bool" where
  "startswith s p = (take (length p) s = p)"

definition endswith :: "string \<Rightarrow> string \<Rightarrow> bool" where
  "endswith s p = (length p \<le> length s \<and> drop (length s - length p) s = p)"

text \<open>\<open>s.rfind(c)\<close>: the index of the last occurrence of \<open>c\<close>, or \<open>-1\<close>.\<close>

definition rfind :: "string \<Rightarrow> char \<Rightarrow> int" where
  "rfind s c = (if c \<in> set s
     then int (length s) - 1 - int (length (takeWhile (\<lambda>x. x \<noteq> c) (rev s)))
     else - 1)"

text \<open>\<open>s.rstrip(c)\<close> for a single character \<open>c\<close>.\<close>

definition rstrip :: "string \<Rightarrow> char \<Rightarrow> string" where
  "rstrip s c = rev (dropWhile (\<lambda>x. x = c) (rev s))"

text \<open>
  \<open>posixpath.join(a, b)\<close>:
  \<^verbatim>\<open>
    if b.startswith('/'): path = b
    elif not path or path.endswith('/'): path += b
    else: path += '/' + b
  \<close>
\<close>

definition path_join :: "string \<Rightarrow> string \<Rightarrow> string" where
  "path_join a b =
     (if startswith b ''/'' then b
      else if a = [] \<or> endswith a ''/'' then a @ b
      else a @ ''/'' @ b)"

text \<open>
  \<open>posixpath.dirname(p)\<close>:
  \<^verbatim>\<open>
    i = p.rfind('/') + 1
    head = p[:i]
    if head and head != '/' * len(head): head = head.rstrip('/')
    return head
  \<close>
\<close>

definition dirname :: "string \<Rightarrow> string" where
  "dirname p =
     (let i = nat (rfind p CHR ''/'' + 1);
          head = take i p
      in if head \<noteq> [] \<and> head \<noteq> replicate (length head) CHR ''/''
         then rstrip head CHR ''/'' else head)"

text \<open>\<open>posixpath.basename(p)\<close>: \<open>p[p.rfind('/') + 1:]\<close>.\<close>

definition basename :: "string \<Rightarrow> string" where
  "basename p = drop (nat (rfind p CHR ''/'' + 1)) p"

text \<open>
  \<open>posixpath.splitext(p)\<close> (\<open>genericpath._splitext\<close>): the extension starts at the last
  dot of the last path component, unless that component has only dots before it.
  \<^verbatim>\<open>
    sepIndex = p.rfind(sep); dotIndex = p.rfind(extsep)
    if dotIndex > sepIndex:
        filenameIndex = sepIndex + 1
        while filenameIndex < dotIndex:
            if p[filenameIndex:filenameIndex+1] != extsep:
                return p[:dotIndex], p[dotIndex:]
            filenameIndex += 1
    return p, p[:0]
  \<close>
\<close>

definition splitext :: "string \<Rightarrow> string \<times> string" where
  "splitext p =
     (let sepIndex = rfind p CHR ''/'';
          dotIndex = rfind p CHR ''.''
      in if dotIndex > sepIndex \<and>
            (\<exists>x \<in> set (take (nat (dotIndex - (sepIndex + 1))) (drop (nat (sepIndex + 1)) p)).
               x \<noteq> CHR ''.'')
         then (take (nat dotIndex) p, drop (nat dotIndex) p)
         else (p, []))"

subsection \<open>The host's state\<close>

datatype status = RUNNING_MODAL | FINISHED | CANCELLED

datatype error =
    FileNotFoundError | FileExistsError | NotADirectoryError | RuntimeError | ReferenceError
  | AttributeError

datatype level = INFO | WARNING | ERROR

text \<open>The settings store \<open>QP_Props\<close>.\<close>

record QP_Props =
  render_filepath :: string
  is_quad_active :: bool

definition QP_Props_default :: QP_Props where
  "QP_Props_default = \<lparr> render_filepath = ''//quadview_render.mp4'', is_quad_active = False \<rparr>"

text \<open>A screen area: its type, its size in pixels, the types of its regions, and a
  reference (an address in the store \<open>spaces\<close>) to its active space.\<close>

record area =
  area_type :: string
  width :: int
  height :: int
  regions :: "string list"
  spaces_active :: nat

text \<open>
  A space with the visibility flags the capture operators touch. Every 3D-viewport space
  has \<open>show_region_ui\<close> and \<open>show_region_toolbar\<close>; \<open>show_gizmo\<close> and
  \<open>show_region_tool_header\<close> are read through \<open>hasattr\<close> on \<open>context.space_data\<close>, which
  may be a space of any type: \<open>None\<close> is a space without the attribute.
\<close>

record space =
  show_region_ui :: bool
  show_region_toolbar :: bool
  show_gizmo :: "bool option"
  show_region_tool_header :: "bool option"

text \<open>An image strip of the sequencer, as \<open>sequences.new_image\<close> creates it.\<close>

record strip =
  strip_name :: string
  strip_filepath :: string
  strip_channel :: int
  strip_frame_start :: int
  strip_elements :: "string list"
  frame_final_duration :: int

record render_settings =
  resolution_x :: int
  resolution_y :: int
  fps :: int
  file_format :: string
  ffmpeg_format :: string
  ffmpeg_codec :: string
  constant_rate_factor :: string
  ffmpeg_preset :: string
  filepath :: string

record scene =
  scene_name :: string
  render :: render_settings
  frame_start :: int
  frame_end :: int
  frame_current :: int
  sequence_editor :: "strip list option"
  qp_props :: QP_Props

text \<open>What the filesystem holds at a path, as the program spells the path: nothing, a
  regular file, or a directory with its entries' names.\<close>

datatype node = File | Dir "string list"

text \<open>
  The host commands the add-on invokes, as they are logged. A command run under
  \<open>context.temp_override(area=..., region=...)\<close> carries the area and the position of the
  region among the area's regions; a timer carries its interval in milliseconds;
  \<open>bpy.ops.render.render\<close> carries the scene it renders, as it is at that moment.
\<close>

datatype host_call =
    Region_quadview area nat
  | Os_startfile string
  | Popen "string list"
  | Screenshot_area "area option" "nat option" string
  | View_layer_update
  | Event_timer_add nat
  | Event_timer_remove
  | Modal_handler_add
  | Frame_set int
  | Render_render "scene option"

text \<open>The host commands the source guards with \<open>try\<close>/\<open>except\<close>.\<close>

datatype guarded = G_region_quadview | G_new_image | G_render | G_rmtree

text \<open>
  The world. \<open>scene\<close> is \<open>context.scene\<close>; \<open>bpy.data.scenes\<close> is \<open>scene\<close> followed by
  \<open>other_scenes\<close>. \<open>window_scene\<close> is the name of \<open>context.window.scene\<close>. \<open>images\<close> is
  the pixel size of every file that \<open>bpy.data.images.load\<close> can read. \<open>blend_dir\<close> is the
  directory of the open project file, to which \<open>bpy.path.abspath\<close> relates a path that
  starts with \<open>//\<close>. \<open>scene_template\<close> holds the settings the host gives a new scene.
\<close>

record world =
  areas :: "area list"
  spaces :: "nat \<Rightarrow> space"
  space_data :: "nat option"
  scene :: scene
  other_scenes :: "scene list"
  window_scene :: string
  fs :: "string \<Rightarrow> node option"
  images :: "string \<Rightarrow> (int \<times> int) option"
  blend_dir :: string
  platform_system :: string
  scene_template :: scene
  raises :: "guarded \<Rightarrow> string option"
  launcher_raises :: "error option"
  reports :: "(level \<times> string) list"
  calls :: "host_call list"

definition report :: "level \<Rightarrow> string \<Rightarrow> world \<Rightarrow> world" where
  "report l msg w = w\<lparr>reports := reports w @ [(l, msg)]\<rparr>"

definition call :: "host_call \<Rightarrow> world \<Rightarrow> world" where
  "call c w = w\<lparr>calls := calls w @ [c]\<rparr>"

text \<open>\<open>bpy.path.abspath\<close>: a leading \<open>//\<close> stands for the project file's directory.\<close>

definition abspath :: "world \<Rightarrow> string \<Rightarrow> string" where
  "abspath w p = (if startswith p ''//'' then path_join (blend_dir w) (drop 2 p) else p)"

text \<open>\<open>os.path.exists\<close>.\<close>

definition path_exists :: "world \<Rightarrow> string \<Rightarrow> bool" where
  "path_exists w p = (p \<noteq> [] \<and> fs w p \<noteq> None)"

text \<open>The index of the first element that satisfies \<open>P\<close>.\<close>

fun first_index :: "('a \<Rightarrow> bool) \<Rightarrow> 'a list \<Rightarrow> nat option" where
  "first_index P [] = None"
| "first_index P (x # xs) =
     (if P x then Some 0 else map_option Suc (first_index P xs))"

subsection \<open>\<open>QP_OT_switch_layout\<close>\<close>

text \<open>
  The search loop of \<open>execute\<close>: the first area of type \<open>VIEW_3D\<close> that has a region of
  type \<open>WINDOW\<close>, with the position of the first such region.
\<close>

fun find_view3d :: "area list \<Rightarrow> (area \<times> nat) option" where
  "find_view3d [] = None"
| "find_view3d (a # as) =
     (if area_type a = ''VIEW_3D'' then
        (case first_index (\<lambda>r. r = ''WINDOW'') (regions a) of
           Some j \<Rightarrow> Some (a, j)
         | None \<Rightarrow> find_view3d as)
      else find_view3d as)"

definition set_quad_active :: "bool \<Rightarrow> world \<Rightarrow> world" where
  "set_quad_active b w = w\<lparr>scene := (scene w)\<lparr>qp_props := (qp_props (scene w))\<lparr>is_quad_active := b\<rparr>\<rparr>\<rparr>"

definition switch_layout_execute :: "world \<Rightarrow> (error + status) \<times> world" where
  "switch_layout_execute w =
     (case find_view3d (areas w) of
        None \<Rightarrow>
          (Inr CANCELLED, report ERROR ''Could not find a View3D area with a WINDOW region.'' w)
      | Some (view3d_area, view3d_region) \<Rightarrow>
          (let w1 = call (Region_quadview view3d_area view3d_region) w in
           case raises w G_region_quadview of
             Some e \<Rightarrow> (Inr CANCELLED, report ERROR (''Error: '' @ e) w1)
           | None \<Rightarrow>
               (let w2 = set_quad_active (\<not> is_quad_active (qp_props (scene w1))) w1 in
                if is_quad_active (qp_props (scene w2))
                then (Inr FINISHED, report INFO ''Quad View enabled'' w2)
                else (Inr FINISHED, report INFO ''Returned to original layout'' w2))))"

subsection \<open>\<open>QP_OT_open_render_folder\<close>\<close>

text \<open>
  The launch of the file browser stands outside any \<open>try\<close> block: an exception it raises
  leaves \<open>execute\<close>, after the command was issued and before anything is reported.
\<close>

definition open_render_folder_execute :: "world \<Rightarrow> (error + status) \<times> world" where
  "open_render_folder_execute w =
     (let folder_path = abspath w (dirname (render_filepath (qp_props (scene w)))) in
      if path_exists w folder_path then
        (let w1 = (if platform_system w = ''Windows'' then call (Os_startfile folder_path) w
                   else if platform_system w = ''Darwin'' then call (Popen [''open'', folder_path]) w
                   else call (Popen [''xdg-open'', folder_path]) w)
         in case launcher_raises w of
              Some e \<Rightarrow> (Inl e, w1)
            | None \<Rightarrow> (Inr FINISHED, report INFO (''Opened folder: '' @ folder_path) w1))
      else (Inr FINISHED, report ERROR ''Folder does not exist'' w))"

subsection \<open>\<open>QP_OT_combine_images_to_video\<close>\<close>

definition video_scene_name :: string where
  "video_scene_name = ''CombineVideoScene''"

text \<open>The temporary frame directory, derived from the absolute output path:
  \<open>os.path.join(folder_main, f"{filename_base}_temp")\<close>.\<close>

definition folder_temp_of :: "string \<Rightarrow> string" where
  "folder_temp_of user_filepath =
     (let folder_main = dirname user_filepath;
          filename_base = fst (splitext (basename user_filepath))
      in path_join folder_main (filename_base @ ''_temp''))"

text \<open>\<open>os.listdir\<close>.\<close>

definition listdir :: "world \<Rightarrow> string \<Rightarrow> error + string list" where
  "listdir w p =
     (case fs w p of
        None \<Rightarrow> Inl FileNotFoundError
      | Some File \<Rightarrow> Inl NotADirectoryError
      | Some (Dir entries) \<Rightarrow> Inr entries)"

text \<open>The two roundings of \<open>execute\<close>: \<open>if n % 2 != 0: n += 1\<close>.\<close>

definition round_even :: "int \<Rightarrow> int" where
  "round_even n = (if n mod 2 \<noteq> 0 then n + 1 else n)"

text \<open>
  The host keeps \<open>render.resolution_x\<close> and \<open>render.resolution_y\<close> between 4 and 65536:
  an assignment stores the nearest value of that range.
\<close>

definition clamp_resolution :: "int \<Rightarrow> int" where
  "clamp_resolution v = max 4 (min 65536 v)"

text \<open>\<open>bpy.data.scenes\<close>, and the test \<open>name in bpy.data.scenes\<close>.\<close>

definition data_scenes :: "world \<Rightarrow> scene list" where
  "data_scenes w = scene w # other_scenes w"

definition in_scenes :: "string \<Rightarrow> world \<Rightarrow> bool" where
  "in_scenes n w = (n \<in> set (map scene_name (data_scenes w)))"

fun remove_first :: "('a \<Rightarrow> bool) \<Rightarrow> 'a list \<Rightarrow> 'a list" where
  "remove_first P [] = []"
| "remove_first P (x # xs) = (if P x then xs else x # remove_first P xs)"

text \<open>
  \<open>bpy.data.scenes.remove(bpy.data.scenes[n])\<close>: the first scene of that name leaves the
  collection. When that scene is \<open>context.scene\<close> itself, the operator's own \<open>scene\<close>
  reference dies with it (or the host refuses to remove its last scene): the operator
  cannot go on, which the model raises here.
\<close>

definition scenes_remove :: "string \<Rightarrow> world \<Rightarrow> error + world" where
  "scenes_remove n w =
     (if scene_name (scene w) = n then Inl ReferenceError
      else Inr (w\<lparr>other_scenes := remove_first (\<lambda>s. scene_name s = n) (other_scenes w)\<rparr>))"

text \<open>The removal of a scene of the reserved name, before the render scene is created and
  at both exits:
  \<open>if video_scene_name in bpy.data.scenes: bpy.data.scenes.remove(...)\<close>.\<close>

definition remove_video_scene :: "world \<Rightarrow> error + world" where
  "remove_video_scene w =
     (if in_scenes video_scene_name w then scenes_remove video_scene_name w else Inr w)"

text \<open>
  \<open>bpy.data.scenes.new(n)\<close>: a scene with the host's settings for a new scene, added at
  the end of the collection; the result is its position in \<open>other_scenes\<close>, by which the
  operator refers to it. (The host renames a new scene whose name is taken; the combiner
  frees the name first.)
\<close>

definition scenes_new :: "string \<Rightarrow> world \<Rightarrow> nat \<times> world" where
  "scenes_new n w =
     (length (other_scenes w),
      w\<lparr>other_scenes := other_scenes w @ [(scene_template w)\<lparr>scene_name := n\<rparr>]\<rparr>)"

text \<open>The scene at position \<open>i\<close>, and an assignment to a field of it. (A position
  outside the collection is a dead reference; the combiner never holds one.)\<close>

definition scene_at :: "nat \<Rightarrow> world \<Rightarrow> scene option" where
  "scene_at i w = (if i < length (other_scenes w) then Some (other_scenes w ! i) else None)"

definition update_scene :: "nat \<Rightarrow> (scene \<Rightarrow> scene) \<Rightarrow> world \<Rightarrow> world" where
  "update_scene i f w =
     (if i < length (other_scenes w)
      then w\<lparr>other_scenes := (other_scenes w)[i := f (other_scenes w ! i)]\<rparr>
      else w)"

text \<open>
  The first part of \<open>execute\<close> after the image was measured: the dimensions are rounded, a
  scene of the reserved name is removed, the render scene is created and configured.
  The result is the position of the render scene and the new world.
\<close>

definition combine_prepare ::
  "string \<Rightarrow> string list \<Rightarrow> int \<Rightarrow> int \<Rightarrow> world \<Rightarrow> error + (nat \<times> world)" where
  "combine_prepare user_filepath imgs w0 h0 w =
     (let img_width = round_even w0;
          img_height = round_even h0
      in case remove_video_scene w of
           Inl e \<Rightarrow> Inl e
         | Inr w1 \<Rightarrow>
             (let (video_scene, w2) = scenes_new video_scene_name w1;
                  w3 = update_scene video_scene
                         (\<lambda>s. s\<lparr>render := (render s)
                                  \<lparr>resolution_x := clamp_resolution img_width,
                                   resolution_y := clamp_resolution img_height,
                                   fps := fps (render (scene w)),
                                   file_format := ''FFMPEG'',
                                   ffmpeg_format := ''MPEG4'',
                                   ffmpeg_codec := ''H264'',
                                   constant_rate_factor := ''HIGH'',
                                   ffmpeg_preset := ''GOOD''\<rparr>,
                                 frame_start := 1,
                                 frame_end := int (length imgs)\<rparr>) w2;
                  w4 = update_scene video_scene
                         (\<lambda>s. if sequence_editor s = None then s\<lparr>sequence_editor := Some []\<rparr> else s) w3;
                  w5 = update_scene video_scene (\<lambda>s. s\<lparr>sequence_editor := Some []\<rparr>) w4;
                  w6 = update_scene video_scene
                         (\<lambda>s. s\<lparr>render := (render s)\<lparr>filepath := user_filepath\<rparr>\<rparr>) w5
              in Inr (video_scene, w6)))"

text \<open>
  The body of the first \<open>try\<close> block: the window shows the render scene, the image strip
  is built, the animation is rendered (the host renders the scene the window shows), the
  window shows the original scene again. The result is the message of the exception
  raised, if any, and the world reached.
\<close>

definition combine_encode ::
  "nat \<Rightarrow> string \<Rightarrow> string list \<Rightarrow> world \<Rightarrow> string option \<times> world" where
  "combine_encode video_scene first_image_path imgs w =
     (let original_scene = window_scene w;
          w1 = w\<lparr>window_scene := video_scene_name\<rparr>
      in case raises w G_new_image of
           Some e \<Rightarrow> (Some e, w1)
         | None \<Rightarrow>
             (let image_strip =
                    \<lparr> strip_name = ''QuadViewImages'',
                      strip_filepath = first_image_path,
                      strip_channel = 1,
                      strip_frame_start = 1,
                      strip_elements = basename first_image_path # tl imgs,
                      frame_final_duration = int (length imgs) \<rparr>;
                  w2 = update_scene video_scene
                         (\<lambda>s. s\<lparr>sequence_editor :=
                                  (case sequence_editor s of
                                     None \<Rightarrow> Some [image_strip]
                                   | Some ss \<Rightarrow> Some (ss @ [image_strip]))\<rparr>) w1;
                  w3 = call (Render_render (scene_at video_scene w2)) w2
              in case raises w G_render of
                   Some e \<Rightarrow> (Some e, w3)
                 | None \<Rightarrow> (None, w3\<lparr>window_scene := original_scene\<rparr>)))"

text \<open>
  \<open>shutil.rmtree(p)\<close>: the directory and everything below it leave the filesystem, and
  its name leaves its parent's entries. \<open>Inl e\<close> is an exception with message \<open>e\<close>, after
  which the model leaves the filesystem as it was.
\<close>

definition remove_entry :: "string \<Rightarrow> (string \<Rightarrow> node option) \<Rightarrow> (string \<Rightarrow> node option)" where
  "remove_entry p f =
     (case f (dirname p) of
        Some (Dir entries) \<Rightarrow> f(dirname p := Some (Dir (removeAll (basename p) entries)))
      | _ \<Rightarrow> f)"

definition rmtree :: "string \<Rightarrow> world \<Rightarrow> string + world" where
  "rmtree p w =
     (case raises w G_rmtree of
        Some e \<Rightarrow> Inl e
      | None \<Rightarrow>
          (case fs w p of
             None \<Rightarrow> Inl ''No such file or directory''
           | Some File \<Rightarrow> Inl ''Not a directory''
           | Some (Dir entries) \<Rightarrow>
               Inr (w\<lparr>fs := (\<lambda>q. if q = p \<or> startswith q (p @ ''/'') then None
                                  else remove_entry p (fs w) q)\<rparr>)))"

text \<open>
  The end of \<open>execute\<close> on the success path: the second \<open>try\<close> block deletes the frame
  directory (a failure is a warning), the render scene is removed, success is reported.
\<close>

definition combine_finish :: "string \<Rightarrow> string \<Rightarrow> world \<Rightarrow> (error + status) \<times> world" where
  "combine_finish user_filepath folder_temp w =
     (let w1 = (case rmtree folder_temp w of
                  Inr w' \<Rightarrow> report INFO ''Temporary image folder deleted'' w'
                | Inl e \<Rightarrow> report WARNING (''Could not delete temp folder: '' @ e) w)
      in case remove_video_scene w1 of
           Inl x \<Rightarrow> (Inl x, w1)
         | Inr w2 \<Rightarrow> (Inr FINISHED, report INFO (''Video completed: '' @ user_filepath) w2))"

text \<open>The \<open>except\<close> clause of the first \<open>try\<close> block, for an exception with message \<open>e\<close>.\<close>

definition combine_failed :: "string \<Rightarrow> world \<Rightarrow> (error + status) \<times> world" where
  "combine_failed e w =
     (let w1 = report ERROR (''Error creating video: '' @ e) w
      in case remove_video_scene w1 of
           Inl x \<Rightarrow> (Inl x, w1)
         | Inr w2 \<Rightarrow> (Inr CANCELLED, w2))"

text \<open>
  \<open>execute\<close> from the point where the sorted list of images is known not to be empty.
  \<open>bpy.data.images.load\<close> raises for a file that is no image.
\<close>

definition combine_images ::
  "string \<Rightarrow> string \<Rightarrow> string \<Rightarrow> string list \<Rightarrow> world \<Rightarrow> (error + status) \<times> world" where
  "combine_images user_filepath folder_temp first_image more_images w =
     (let imgs = first_image # more_images;
          first_image_path = path_join folder_temp first_image
      in case images w first_image_path of
           None \<Rightarrow> (Inl RuntimeError, w)
         | Some (img_width, img_height) \<Rightarrow>
             (case combine_prepare user_filepath imgs img_width img_height w of
                Inl e \<Rightarrow> (Inl e, w)
              | Inr (video_scene, w1) \<Rightarrow>
                  (case combine_encode video_scene first_image_path imgs w1 of
                     (Some e, w2) \<Rightarrow> combine_failed e w2
                   | (None, w2) \<Rightarrow> combine_finish user_filepath folder_temp w2)))"

definition combine_images_to_video_execute :: "world \<Rightarrow> (error + status) \<times> world" where
  "combine_images_to_video_execute w =
     (let props = qp_props (scene w);
          user_filepath = abspath w (render_filepath props);
          folder_temp = folder_temp_of user_filepath
      in if \<not> path_exists w folder_temp then
           (Inr CANCELLED, report ERROR ''Temporary image folder does not exist.'' w)
         else
           (case listdir w folder_temp of
              Inl e \<Rightarrow> (Inl e, w)
            | Inr entries \<Rightarrow>
                (case sort (filter (\<lambda>f. endswith f ''.png'') entries) of
                   [] \<Rightarrow> (Inr CANCELLED, report ERROR ''No images found to combine into a video.'' w)
                 | first_image # more_images \<Rightarrow>
                     combine_images user_filepath folder_temp first_image more_images w)))"


text \<open>The number of scenes of the reserved name in \<open>bpy.data.scenes\<close>.\<close>

definition video_scene_count :: "world \<Rightarrow> nat" where
  "video_scene_count w =
     length (filter (\<lambda>s. scene_name s = video_scene_name) (data_scenes w))"

text \<open>The combiner, invoked \<open>n\<close> times in a row.\<close>

definition combine_repeatedly :: "nat \<Rightarrow> world \<Rightarrow> world" where
  "combine_repeatedly n w = ((\<lambda>v. snd (combine_images_to_video_execute v)) ^^ n) w"

subsection \<open>What the capture operators share\<close>

text \<open>
  \<open>os.makedirs(p, exist_ok=True)\<close>. The new directory is entered in its parent's entries
  when the parent is a directory of the model.
\<close>

definition add_entry :: "string \<Rightarrow> (string \<Rightarrow> node option) \<Rightarrow> (string \<Rightarrow> node option)" where
  "add_entry p f =
     (case f (dirname p) of
        Some (Dir entries) \<Rightarrow>
          f(dirname p := Some (Dir (if basename p \<in> set entries then entries
                                    else entries @ [basename p])))
      | _ \<Rightarrow> f)"

definition makedirs :: "string \<Rightarrow> world \<Rightarrow> error + world" where
  "makedirs p w =
     (if p = [] then Inl FileNotFoundError
      else case fs w p of
             Some (Dir entries) \<Rightarrow> Inr w
           | Some File \<Rightarrow> Inl FileExistsError
           | None \<Rightarrow> Inr (w\<lparr>fs := add_entry p ((fs w)(p := Some (Dir [])))\<rparr>))"

text \<open>
  \<open>bpy.ops.screen.screenshot_area(filepath=p)\<close> under an override of area and region: the
  command is logged and the file is written, an image of the size of the area.
\<close>

definition screenshot_area :: "area option \<Rightarrow> nat option \<Rightarrow> string \<Rightarrow> world \<Rightarrow> world" where
  "screenshot_area a r p w =
     (call (Screenshot_area a r p) w)
       \<lparr>fs := add_entry p ((fs w)(p := Some File)),
        images := (case a of
                     None \<Rightarrow> images w
                   | Some ar \<Rightarrow> (images w)(p := Some (width ar, height ar)))\<rparr>"

text \<open>
  The two assignments guarded by \<open>hasattr\<close>:
  \<^verbatim>\<open>
    if hasattr(context.space_data, 'show_gizmo'):
        context.space_data.show_gizmo = b
    if hasattr(context.space_data, 'show_region_tool_header'):
        context.space_data.show_region_tool_header = b
  \<close>
\<close>

definition set_show_gizmo :: "bool \<Rightarrow> world \<Rightarrow> world" where
  "set_show_gizmo b w =
     (case space_data w of
        None \<Rightarrow> w
      | Some c \<Rightarrow>
          (case show_gizmo (spaces w c) of
             None \<Rightarrow> w
           | Some old \<Rightarrow> w\<lparr>spaces := (spaces w)(c := (spaces w c)\<lparr>show_gizmo := Some b\<rparr>)\<rparr>))"

definition set_show_region_tool_header :: "bool \<Rightarrow> world \<Rightarrow> world" where
  "set_show_region_tool_header b w =
     (case space_data w of
        None \<Rightarrow> w
      | Some c \<Rightarrow>
          (case show_region_tool_header (spaces w c) of
             None \<Rightarrow> w
           | Some old \<Rightarrow>
               w\<lparr>spaces := (spaces w)(c := (spaces w c)\<lparr>show_region_tool_header := Some b\<rparr>)\<rparr>))"

text \<open>The two assignments to the active space of the viewport area:
  \<open>space.show_region_ui = u; space.show_region_toolbar = t\<close>.\<close>

definition set_region_flags :: "nat \<Rightarrow> bool \<Rightarrow> bool \<Rightarrow> world \<Rightarrow> world" where
  "set_region_flags sp u t w =
     w\<lparr>spaces := (spaces w)(sp := (spaces w sp)\<lparr>show_region_ui := u, show_region_toolbar := t\<rparr>)\<rparr>"

subsection \<open>\<open>QP_OT_screenshot_quadview\<close>\<close>

text \<open>The operator's own attributes, with the defaults of the class.\<close>

record screenshot_op =
  s_timer :: "nat option"
  s_view3d_area :: "area option"
  s_region_window :: "nat option"
  s_ui_was_visible :: bool
  s_toolbar_was_visible :: bool
  s_file_path :: string

definition screenshot_op_init :: screenshot_op where
  "screenshot_op_init =
     \<lparr> s_timer = None, s_view3d_area = None, s_region_window = None,
       s_ui_was_visible = False, s_toolbar_was_visible = False, s_file_path = [] \<rparr>"

definition screenshot_quadview_execute :: "world \<Rightarrow> (error + status) \<times> screenshot_op \<times> world" where
  "screenshot_quadview_execute w =
     (let self = screenshot_op_init in
      case find (\<lambda>a. area_type a = ''VIEW_3D'') (areas w) of
        None \<Rightarrow> (Inr CANCELLED, self, report ERROR ''VIEW_3D not found'' w)
      | Some view3d_area \<Rightarrow>
          (let self1 = self\<lparr>s_view3d_area := Some view3d_area\<rparr> in
           case first_index (\<lambda>r. r = ''WINDOW'') (regions view3d_area) of
             None \<Rightarrow> (Inr CANCELLED, self1, report ERROR ''WINDOW region not found'' w)
           | Some region_window \<Rightarrow>
               (let user_filepath = abspath w (render_filepath (qp_props (scene w)));
                    folder_path = dirname user_filepath;
                    filename = fst (splitext (basename user_filepath)) @ ''.png'';
                    self2 = self1\<lparr>s_region_window := Some region_window,
                                  s_file_path := path_join folder_path filename\<rparr>
                in case makedirs folder_path w of
                     Inl e \<Rightarrow> (Inl e, self2, w)
                   | Inr w1 \<Rightarrow>
                       (let sp = spaces_active view3d_area;
                            self3 = self2\<lparr>s_ui_was_visible := show_region_ui (spaces w1 sp),
                                          s_toolbar_was_visible := show_region_toolbar (spaces w1 sp)\<rparr>;
                            w2 = set_region_flags sp False False w1;
                            w3 = set_show_gizmo False w2;
                            w4 = set_show_region_tool_header False w3;
                            w5 = call View_layer_update w4;
                            w6 = call (Event_timer_add 200) w5;
                            self4 = self3\<lparr>s_timer := Some 200\<rparr>;
                            w7 = call Modal_handler_add w6
                        in (Inr RUNNING_MODAL, self4, w7)))))"

text \<open>\<open>modal\<close>, on an event of the given type.\<close>

definition screenshot_quadview_modal ::
  "string \<Rightarrow> screenshot_op \<times> world \<Rightarrow> (error + status) \<times> screenshot_op \<times> world" where
  "screenshot_quadview_modal event_type sw =
     (let (self, w) = sw in
      if event_type = ''TIMER'' then
        (let w1 = call Event_timer_remove w;
             w2 = screenshot_area (s_view3d_area self) (s_region_window self) (s_file_path self) w1
         in case s_view3d_area self of
              None \<Rightarrow> (Inl AttributeError, self, w2)
            | Some view3d_area \<Rightarrow>
                (let sp = spaces_active view3d_area;
                     w3 = set_region_flags sp (s_ui_was_visible self) (s_toolbar_was_visible self) w2;
                     w4 = set_show_gizmo True w3;
                     w5 = set_show_region_tool_header True w4;
                     w6 = call View_layer_update w5;
                     w7 = report INFO (''Image saved: '' @ s_file_path self) w6
                 in (Inr FINISHED, self, w7)))
      else (Inr RUNNING_MODAL, self, w))"

subsection \<open>\<open>QP_OT_screenshot_quadview_anim\<close>\<close>

text \<open>Python's \<open>str(n)\<close> and the format \<open>{n:04d}\<close> of an integer: decimal digits, filled
  with zeros after the sign up to a width of four characters.\<close>

definition digit_char :: "nat \<Rightarrow> char" where
  "digit_char d = ''0123456789'' ! (d mod 10)"

fun digits :: "nat \<Rightarrow> string" where
  "digits n = (if n < 10 then [digit_char n] else digits (n div 10) @ [digit_char (n mod 10)])"

declare digits.simps [simp del]

definition str_int :: "int \<Rightarrow> string" where
  "str_int n = (if n < 0 then CHR ''-'' # digits (nat (- n)) else digits (nat n))"

definition format_04d :: "int \<Rightarrow> string" where
  "format_04d n =
     (if n < 0
      then CHR ''-'' # replicate (3 - length (digits (nat (- n)))) CHR ''0'' @ digits (nat (- n))
      else replicate (4 - length (digits (nat n))) CHR ''0'' @ digits (nat n))"

text \<open>The name of the file for frame \<open>n\<close>: \<open>f"quadview_frame_{n:04d}.png"\<close>.\<close>

definition frame_filename :: "int \<Rightarrow> string" where
  "frame_filename n = ''quadview_frame_'' @ format_04d n @ ''.png''"

text \<open>Reading a decimal numeral back, as Python's \<open>int(s)\<close> does for an optional minus sign
  followed by digits. It serves to tell the names of different frames apart.\<close>

definition digit_value :: "char \<Rightarrow> nat" where
  "digit_value c = of_char c - 48"

definition parse_nat :: "string \<Rightarrow> nat" where
  "parse_nat s = foldl (\<lambda>a c. 10 * a + digit_value c) 0 s"

definition parse_int :: "string \<Rightarrow> int" where
  "parse_int s =
     (case s of
        [] \<Rightarrow> 0
      | c # cs \<Rightarrow> if c = CHR ''-'' then - int (parse_nat cs) else int (parse_nat s))"

record anim_op =
  a_view3d_area :: "area option"
  a_region_window :: "nat option"
  a_frame_current :: int
  a_frame_start :: int
  a_frame_end :: int
  a_folder_path :: string
  a_ui_was_visible :: bool
  a_toolbar_was_visible :: bool
  a_timer :: "nat option"
  a_wait_frames :: int

definition anim_op_init :: anim_op where
  "anim_op_init =
     \<lparr> a_view3d_area = None, a_region_window = None, a_frame_current = 0,
       a_frame_start = 0, a_frame_end = 0, a_folder_path = [],
       a_ui_was_visible = False, a_toolbar_was_visible = False, a_timer = None,
       a_wait_frames = 2 \<rparr>"

text \<open>\<open>scene.frame_set(n)\<close> on \<open>context.scene\<close>.\<close>

definition frame_set :: "int \<Rightarrow> world \<Rightarrow> world" where
  "frame_set n w = call (Frame_set n) (w\<lparr>scene := (scene w)\<lparr>frame_current := n\<rparr>\<rparr>)"

definition screenshot_quadview_anim_execute :: "world \<Rightarrow> (error + status) \<times> anim_op \<times> world" where
  "screenshot_quadview_anim_execute w =
     (let self = anim_op_init in
      case find (\<lambda>a. area_type a = ''VIEW_3D'') (areas w) of
        None \<Rightarrow> (Inr CANCELLED, self, report ERROR ''VIEW_3D not found'' w)
      | Some view3d_area \<Rightarrow>
          (let self1 = self\<lparr>a_view3d_area := Some view3d_area\<rparr> in
           case first_index (\<lambda>r. r = ''WINDOW'') (regions view3d_area) of
             None \<Rightarrow> (Inr CANCELLED, self1, report ERROR ''WINDOW region not found'' w)
           | Some region_window \<Rightarrow>
               (let w1 = frame_set 1 w;
                    self2 = self1\<lparr>a_region_window := Some region_window,
                                  a_frame_start := frame_start (scene w1),
                                  a_frame_end := frame_end (scene w1),
                                  a_frame_current := frame_start (scene w1)\<rparr>;
                    user_filepath = abspath w1 (render_filepath (qp_props (scene w1)));
                    self3 = self2\<lparr>a_folder_path := folder_temp_of user_filepath\<rparr>
                in case makedirs (a_folder_path self3) w1 of
                     Inl e \<Rightarrow> (Inl e, self3, w1)
                   | Inr w2 \<Rightarrow>
                       (let sp = spaces_active view3d_area;
                            self4 = self3\<lparr>a_ui_was_visible := show_region_ui (spaces w2 sp),
                                          a_toolbar_was_visible := show_region_toolbar (spaces w2 sp)\<rparr>;
                            w3 = set_region_flags sp False False w2;
                            w4 = set_show_gizmo False w3;
                            w5 = set_show_region_tool_header False w4;
                            w6 = call View_layer_update w5;
                            w7 = call Modal_handler_add w6;
                            w8 = call (Event_timer_add 50) w7;
                            self5 = self4\<lparr>a_timer := Some 50, a_wait_frames := 2\<rparr>
                        in (Inr RUNNING_MODAL, self5, w8)))))"

text \<open>
  \<open>modal\<close>, on an event of the given type. The call \<open>bpy.ops.qp.combine_images_to_video()\<close>
  runs the combiner on the world as it is; the source does not read its status, and an
  exception raised in it goes on through \<open>modal\<close>.
\<close>

definition screenshot_quadview_anim_modal ::
  "string \<Rightarrow> anim_op \<times> world \<Rightarrow> (error + status) \<times> anim_op \<times> world" where
  "screenshot_quadview_anim_modal event_type sw =
     (let (self, w) = sw in
      if event_type = ''TIMER'' then
        if a_wait_frames self > 0 then
          (Inr RUNNING_MODAL, self\<lparr>a_wait_frames := a_wait_frames self - 1\<rparr>, w)
        else if a_frame_current self > a_frame_end self then
          (case a_view3d_area self of
             None \<Rightarrow> (Inl AttributeError, self, w)
           | Some view3d_area \<Rightarrow>
               (let sp = spaces_active view3d_area;
                    w1 = set_region_flags sp (a_ui_was_visible self) (a_toolbar_was_visible self) w;
                    w2 = set_show_gizmo True w1;
                    w3 = set_show_region_tool_header True w2;
                    w4 = call View_layer_update w3;
                    w5 = call Event_timer_remove w4;
                    w6 = report INFO (''Finished video with ''
                           @ str_int (a_frame_end self - a_frame_start self + 1) @ '' frames.'') w5
                in case combine_images_to_video_execute w6 of
                     (Inl e, w7) \<Rightarrow> (Inl e, self, w7)
                   | (Inr st, w7) \<Rightarrow> (Inr FINISHED, self, w7)))
        else
          (let w1 = frame_set (a_frame_current self) w;
               w2 = call View_layer_update w1;
               filename = path_join (a_folder_path self) (frame_filename (a_frame_current self));
               w3 = screenshot_area (a_view3d_area self) (a_region_window self) filename w2
           in (Inr RUNNING_MODAL, self\<lparr>a_frame_current := a_frame_current self + 1\<rparr>, w3))
      else (Inr RUNNING_MODAL, self, w))"

text \<open>
  The host's modal handler: it hands the operator one event after the other for as long
  as \<open>modal\<close> answers \<open>{'RUNNING_MODAL'}\<close>. The result is the answer that ended the run (or
  \<open>RUNNING_MODAL\<close> when the events ran out first), with the state reached.
\<close>

fun anim_run :: "string list \<Rightarrow> anim_op \<times> world \<Rightarrow> (error + status) \<times> anim_op \<times> world" where
  "anim_run [] sw = (Inr RUNNING_MODAL, sw)"
| "anim_run (e # es) sw =
     (case screenshot_quadview_anim_modal e sw of
        (Inr RUNNING_MODAL, sw') \<Rightarrow> anim_run es sw'
      | r \<Rightarrow> r)"

text \<open>The files the host was asked to write screenshots to, in the order of the log.\<close>

fun screenshot_paths :: "host_call list \<Rightarrow> string list" where
  "screenshot_paths [] = []"
| "screenshot_paths (Screenshot_area a r p # cs) = p # screenshot_paths cs"
| "screenshot_paths (c # cs) = screenshot_paths cs"

subsection \<open>Example worlds\<close>

definition demo_space :: space where
  "demo_space =
     \<lparr> show_region_ui = True, show_region_toolbar = False,
       show_gizmo = Some True, show_region_tool_header = Some True \<rparr>"

definition demo_render :: render_settings where
  "demo_render =
     \<lparr> resolution_x = 1920, resolution_y = 1080, fps = 24, file_format = ''PNG'',
       ffmpeg_format = ''MKV'', ffmpeg_codec = ''H264'', constant_rate_factor = ''MEDIUM'',
       ffmpeg_preset = ''GOOD'', filepath = ''/tmp/'' \<rparr>"

definition demo_scene :: scene where
  "demo_scene =
     \<lparr> scene_name = ''Scene'', render = demo_render, frame_start = 1, frame_end = 5,
       frame_current = 3, sequence_editor = None,
       qp_props = \<lparr> render_filepath = ''/out/quadview_render.mp4'', is_quad_active = False \<rparr> \<rparr>"

definition demo_area :: area where
  "demo_area =
     \<lparr> area_type = ''VIEW_3D'', width = 1279, height = 720,
       regions = [''HEADER'', ''WINDOW'', ''UI''], spaces_active = 0 \<rparr>"

text \<open>A project with one 3D viewport, an output folder \<open>/out\<close>, and no captured frames.\<close>

definition demo_world :: world where
  "demo_world =
     \<lparr> areas = [demo_area],
       spaces = (\<lambda>i. demo_space),
       space_data = Some 0,
       scene = demo_scene,
       other_scenes = [],
       window_scene = ''Scene'',
       fs = (\<lambda>p. if p = ''/out'' then Some (Dir []) else None),
       images = (\<lambda>p. None),
       blend_dir = ''/proj'',
       platform_system = ''Linux'',
       scene_template = demo_scene\<lparr>qp_props := QP_Props_default\<rparr>,
       raises = (\<lambda>g. None),
       launcher_raises = None,
       reports = [],
       calls = [] \<rparr>"

text \<open>The same project after a capture of one frame of 101 by 51 pixels, and with a
  render scene that an earlier run left behind.\<close>

definition demo_captured :: world where
  "demo_captured =
     demo_world
       \<lparr> other_scenes := [demo_scene\<lparr>scene_name := ''CombineVideoScene''\<rparr>],
         fs := (\<lambda>p. if p = ''/out'' then Some (Dir [''quadview_render_temp''])
                     else if p = ''/out/quadview_render_temp''
                       then Some (Dir [''notes.txt'', ''quadview_frame_0001.png''])
                     else if p = ''/out/quadview_render_temp/quadview_frame_0001.png''
                       then Some File
                     else None),
         images := (\<lambda>p. if p = ''/out/quadview_render_temp/quadview_frame_0001.png''
                          then Some (101, 51) else None) \<rparr>"

text \<open>The example project on a system without a launcher for the file browser.\<close>

definition demo_no_launcher :: world where
  "demo_no_launcher = demo_world\<lparr>launcher_raises := Some FileNotFoundError\<rparr>"

text \<open>The example project after one and after two layout toggles.\<close>

definition demo_toggled_once :: world where
  "demo_toggled_once =
     demo_world\<lparr>scene := demo_scene\<lparr>qp_props := (qp_props demo_scene)\<lparr>is_quad_active := True\<rparr>\<rparr>,
                reports := [(INFO, ''Quad View enabled'')],
                calls := [Region_quadview demo_area 1]\<rparr>"

definition demo_toggled_twice :: world where
  "demo_toggled_twice =
     demo_world\<lparr>reports := [(INFO, ''Quad View enabled''), (INFO, ''Returned to original layout'')],
                calls := [Region_quadview demo_area 1, Region_quadview demo_area 1]\<rparr>"

text \<open>The captured project when the host's render fails, and when the frame directory
  cannot be deleted.\<close>

definition demo_render_fails :: world where
  "demo_render_fails =
     demo_captured\<lparr>raises := (\<lambda>g. if g = G_render then Some ''disk full'' else None)\<rparr>"

definition demo_rmtree_fails :: world where
  "demo_rmtree_fails =
     demo_captured\<lparr>raises := (\<lambda>g. if g = G_rmtree then Some ''permission denied'' else None)\<rparr>"

text \<open>The captured project with a first frame of one pixel.\<close>

definition demo_tiny :: world where
  "demo_tiny =
     demo_captured\<lparr>images := (\<lambda>p. if p = ''/out/quadview_render_temp/quadview_frame_0001.png''
                                    then Some (1, 1) else None)\<rparr>"

text \<open>The captured project with a frame directory that holds no image.\<close>

definition demo_no_images :: world where
  "demo_no_images =
     demo_world\<lparr>fs := (\<lambda>p. if p = ''/out/quadview_render_temp'' then Some (Dir [''notes.txt''])
                             else None)\<rparr>"

text \<open>
  A whole single-frame capture: \<open>execute\<close>, and, when it answers \<open>RUNNING_MODAL\<close>, the
  timer event that the host then delivers to \<open>modal\<close>.
\<close>

definition screenshot_quadview_capture :: "world \<Rightarrow> (error + status) \<times> screenshot_op \<times> world" where
  "screenshot_quadview_capture w =
     (case screenshot_quadview_execute w of
        (Inr RUNNING_MODAL, sw) \<Rightarrow> screenshot_quadview_modal ''TIMER'' sw
      | r \<Rightarrow> r)"

text \<open>The example project with the gizmos and the tool header switched off by the user.\<close>

definition demo_gizmo_off :: world where
  "demo_gizmo_off =
     demo_world\<lparr>spaces := (\<lambda>i. demo_space\<lparr>show_gizmo := Some False,
                                               show_region_tool_header := Some False\<rparr>)\<rparr>"

section \<open>Properties\<close>

subsection \<open>Searching lists\<close>

lemma first_index_None: "first_index P xs = None \<longleftrightarrow> \<not> (\<exists>x \<in> set xs. P x)"
  by (induction xs) auto

lemma find_view3d_None:
  "find_view3d as = None \<longleftrightarrow>
     \<not> (\<exists>a \<in> set as. area_type a = ''VIEW_3D'' \<and> ''WINDOW'' \<in> set (regions a))"
proof (induction as)
  case Nil
  then show ?case by simp
next
  case (Cons a as)
  show ?case
  proof (cases "area_type a = ''VIEW_3D''")
    case True
    show ?thesis
    proof (cases "first_index (\<lambda>r. r = ''WINDOW'') (regions a)")
      case None
      then have "''WINDOW'' \<notin> set (regions a)" by (auto simp: first_index_None)
      with None True Cons show ?thesis by simp
    next
      case (Some j)
      then have "''WINDOW'' \<in> set (regions a)"
        using first_index_None [of "\<lambda>r. r = ''WINDOW''" "regions a"] by auto
      with Some True show ?thesis by simp
    qed
  next
    case False
    with Cons show ?thesis by simp
  qed
qed

subsection \<open>The layout toggle\<close>

text \<open>
  C5. On a screen with no area of type \<open>VIEW_3D\<close> that has a region of type \<open>WINDOW\<close>, the
  layout toggle reports an error and returns \<open>CANCELLED\<close>; the report is the only change
  to the world: the stored flag keeps its value and no host command is invoked.
\<close>

theorem switch_layout_no_viewport:
  assumes "\<not> (\<exists>a \<in> set (areas w). area_type a = ''VIEW_3D'' \<and> ''WINDOW'' \<in> set (regions a))"
  shows "switch_layout_execute w =
           (Inr CANCELLED,
            w\<lparr>reports := reports w @ [(ERROR, ''Could not find a View3D area with a WINDOW region.'')]\<rparr>)
         \<and> is_quad_active (qp_props (scene (snd (switch_layout_execute w))))
             = is_quad_active (qp_props (scene w))
         \<and> calls (snd (switch_layout_execute w)) = calls w"
proof -
  have "find_view3d (areas w) = None"
    using assms find_view3d_None [of "areas w"] by blast
  then show ?thesis by (simp add: switch_layout_execute_def report_def)
qed

theorem switch_layout_no_viewport_witness:
  "switch_layout_execute (demo_world\<lparr>areas := [demo_area\<lparr>regions := [''HEADER'', ''UI'']\<rparr>]\<rparr>) =
     (Inr CANCELLED,
      demo_world\<lparr>areas := [demo_area\<lparr>regions := [''HEADER'', ''UI'']\<rparr>],
                 reports := [(ERROR, ''Could not find a View3D area with a WINDOW region.'')]\<rparr>)"
  using switch_layout_no_viewport [of "demo_world\<lparr>areas := [demo_area\<lparr>regions := [''HEADER'', ''UI'']\<rparr>]\<rparr>"]
  by (simp add: demo_world_def demo_area_def)

lemma switch_layout_finished:
  assumes "switch_layout_execute w = (Inr FINISHED, w')"
  shows "is_quad_active (qp_props (scene w')) = (\<not> is_quad_active (qp_props (scene w)))"
  using assms
  by (auto simp: switch_layout_execute_def report_def call_def set_quad_active_def Let_def
           split: option.splits prod.splits if_splits)

text \<open>
  C6. Two successful invocations of the layout toggle in a row return the stored flag to
  its original value: each of them negates it.
\<close>

theorem switch_layout_twice:
  assumes "switch_layout_execute w = (Inr FINISHED, w1)"
    and "switch_layout_execute w1 = (Inr FINISHED, w2)"
  shows "is_quad_active (qp_props (scene w1)) = (\<not> is_quad_active (qp_props (scene w)))
         \<and> is_quad_active (qp_props (scene w2)) = is_quad_active (qp_props (scene w))"
  using switch_layout_finished [OF assms(1)] switch_layout_finished [OF assms(2)] by simp

lemma demo_toggle_once: "switch_layout_execute demo_world = (Inr FINISHED, demo_toggled_once)"
  by (simp add: switch_layout_execute_def demo_world_def demo_area_def demo_scene_def
      report_def call_def set_quad_active_def demo_toggled_once_def)

lemma demo_toggle_twice: "switch_layout_execute demo_toggled_once = (Inr FINISHED, demo_toggled_twice)"
  by (simp add: switch_layout_execute_def demo_world_def demo_area_def demo_scene_def
      report_def call_def set_quad_active_def demo_toggled_once_def demo_toggled_twice_def)

theorem switch_layout_twice_witness:
  "switch_layout_execute demo_world = (Inr FINISHED, demo_toggled_once)
   \<and> switch_layout_execute demo_toggled_once = (Inr FINISHED, demo_toggled_twice)
   \<and> is_quad_active (qp_props (scene demo_toggled_once))
       = (\<not> is_quad_active (qp_props (scene demo_world)))
   \<and> is_quad_active (qp_props (scene demo_toggled_twice))
       = is_quad_active (qp_props (scene demo_world))"
  using switch_layout_twice [OF demo_toggle_once demo_toggle_twice]
    demo_toggle_once demo_toggle_twice
  by blast

subsection \<open>The open-folder operation\<close>

text \<open>
  C8. When the folder derived from the settings path does not exist, the open-folder
  operation reports an error and launches nothing: the log of host commands is unchanged.
\<close>

theorem open_render_folder_missing:
  assumes "\<not> path_exists w (abspath w (dirname (render_filepath (qp_props (scene w)))))"
  shows "open_render_folder_execute w =
           (Inr FINISHED, w\<lparr>reports := reports w @ [(ERROR, ''Folder does not exist'')]\<rparr>)
         \<and> calls (snd (open_render_folder_execute w)) = calls w"
  using assms by (simp add: open_render_folder_execute_def report_def)

lemma demo_folder_missing:
  "\<not> path_exists (demo_world\<lparr>fs := (\<lambda>p. None)\<rparr>)
       (abspath (demo_world\<lparr>fs := (\<lambda>p. None)\<rparr>)
          (dirname (render_filepath (qp_props (scene (demo_world\<lparr>fs := (\<lambda>p. None)\<rparr>))))))"
  by (simp add: path_exists_def demo_world_def)

theorem open_render_folder_missing_witness:
  "open_render_folder_execute (demo_world\<lparr>fs := (\<lambda>p. None)\<rparr>) =
     (Inr FINISHED, demo_world\<lparr>fs := (\<lambda>p. None), reports := [(ERROR, ''Folder does not exist'')]\<rparr>)"
  using open_render_folder_missing [OF demo_folder_missing]
  by (simp add: demo_world_def)

text \<open>
  C9, as the code has it. The open-folder operation never returns \<open>CANCELLED\<close>: whenever
  it returns, it returns \<open>FINISHED\<close>, also when the folder does not exist and an error is
  reported. It does not return when the folder exists and the launch of the file browser
  raises: the exception leaves \<open>execute\<close>.
\<close>

theorem open_render_folder_never_cancelled:
  "fst (open_render_folder_execute w) \<noteq> Inr CANCELLED
   \<and> fst (open_render_folder_execute w) \<noteq> Inr RUNNING_MODAL
   \<and> fst (open_render_folder_execute w)
       = (if path_exists w (abspath w (dirname (render_filepath (qp_props (scene w)))))
          then (case launcher_raises w of None \<Rightarrow> Inr FINISHED | Some e \<Rightarrow> Inl e)
          else Inr FINISHED)
   \<and> (\<not> path_exists w (abspath w (dirname (render_filepath (qp_props (scene w))))) \<longrightarrow>
        open_render_folder_execute w = (Inr FINISHED, report ERROR ''Folder does not exist'' w))"
  by (simp add: open_render_folder_execute_def Let_def split: option.splits)

theorem open_render_folder_never_cancelled_witness:
  "open_render_folder_execute (demo_world\<lparr>fs := (\<lambda>p. None)\<rparr>) =
     (Inr FINISHED, report ERROR ''Folder does not exist'' (demo_world\<lparr>fs := (\<lambda>p. None)\<rparr>))
   \<and> fst (open_render_folder_execute demo_world) = Inr FINISHED
   \<and> calls (snd (open_render_folder_execute demo_world)) = [Popen [''xdg-open'', ''/out'']]"
proof -
  have a: "path_exists demo_world (abspath demo_world (dirname (render_filepath (qp_props (scene demo_world)))))"
    by code_simp
  have l: "launcher_raises demo_world = None" by (simp add: demo_world_def)
  have c: "calls (snd (open_render_folder_execute demo_world)) = [Popen [''xdg-open'', ''/out'']]"
    by code_simp
  show ?thesis
    using open_render_folder_never_cancelled [of "demo_world\<lparr>fs := (\<lambda>p. None)\<rparr>"]
      open_render_folder_never_cancelled [of demo_world] demo_folder_missing a l c
    by simp
qed

text \<open>
  C9 as stated fails: where the folder exists and the system has no launcher for the file
  browser, the operation returns no status at all.
\<close>

theorem open_render_folder_launcher_missing:
  "path_exists demo_no_launcher
     (abspath demo_no_launcher (dirname (render_filepath (qp_props (scene demo_no_launcher)))))
   \<and> fst (open_render_folder_execute demo_no_launcher) = Inl FileNotFoundError
   \<and> fst (open_render_folder_execute demo_no_launcher) \<noteq> Inr FINISHED"
  by code_simp

subsection \<open>The scene collection\<close>

lemma in_scenes_count: "in_scenes video_scene_name w \<longleftrightarrow> 0 < video_scene_count w"
proof -
  have "\<And>xs. (video_scene_name \<in> set (map scene_name xs)) =
          (filter (\<lambda>s. scene_name s = video_scene_name) xs \<noteq> [])"
    by (force simp: filter_empty_conv)
  then show ?thesis
    by (simp add: in_scenes_def video_scene_count_def)
qed

lemma filter_remove_first:
  "length (filter P (remove_first P xs)) = length (filter P xs) - 1"
  by (induction xs) auto

lemma map_update_same:
  assumes "\<And>s. g (f s) = g s"
  shows "map g (xs[i := f (xs ! i)]) = map g xs"
  by (cases "i < length xs") (simp_all add: map_update assms list_update_same_conv list_update_beyond)

lemma count_names:
  "video_scene_count w =
     length (filter (\<lambda>n. n = video_scene_name) (map scene_name (data_scenes w)))"
  by (simp add: video_scene_count_def filter_map comp_def)

lemma remove_video_scene_Inr:
  assumes "remove_video_scene w = Inr w1"
  shows "video_scene_count w1 = video_scene_count w - 1"
    and "scene w1 = scene w" and "fs w1 = fs w" and "raises w1 = raises w"
    and "reports w1 = reports w" and "calls w1 = calls w"
    and "scene_name (scene w) \<noteq> video_scene_name"
proof -
  show "video_scene_count w1 = video_scene_count w - 1"
  proof (cases "in_scenes video_scene_name w")
    case True
    with assms show ?thesis
      by (auto simp: remove_video_scene_def scenes_remove_def video_scene_count_def
          data_scenes_def filter_remove_first split: if_splits)
  next
    case False
    with assms have "w1 = w" by (simp add: remove_video_scene_def)
    with False show ?thesis by (simp add: in_scenes_count)
  qed
  show "scene w1 = scene w" "fs w1 = fs w" "raises w1 = raises w" "reports w1 = reports w"
    "calls w1 = calls w"
    using assms
    by (auto simp: remove_video_scene_def scenes_remove_def split: if_splits)
  show "scene_name (scene w) \<noteq> video_scene_name"
    using assms
    by (auto simp: remove_video_scene_def scenes_remove_def in_scenes_def data_scenes_def
        split: if_splits)
qed

lemma remove_video_scene_Inl:
  assumes "remove_video_scene w = Inl e"
  shows "scene_name (scene w) = video_scene_name"
  using assms by (auto simp: remove_video_scene_def scenes_remove_def split: if_splits)

lemma update_scene_frame:
  "scene (update_scene i f w) = scene w" "fs (update_scene i f w) = fs w"
  "raises (update_scene i f w) = raises w" "reports (update_scene i f w) = reports w"
  "calls (update_scene i f w) = calls w" "window_scene (update_scene i f w) = window_scene w"
  "length (other_scenes (update_scene i f w)) = length (other_scenes w)"
  by (simp_all add: update_scene_def)

lemma update_scene_names:
  assumes "\<And>s. scene_name (f s) = scene_name s"
  shows "map scene_name (other_scenes (update_scene i f w)) = map scene_name (other_scenes w)"
  by (simp add: update_scene_def map_update_same assms)

lemma update_scene_count:
  assumes "\<And>s. scene_name (f s) = scene_name s"
  shows "video_scene_count (update_scene i f w) = video_scene_count w"
  by (simp add: count_names data_scenes_def update_scene_names assms update_scene_frame)

lemma scene_at_update_scene:
  "scene_at i (update_scene i f w) = map_option f (scene_at i w)"
  by (simp add: scene_at_def update_scene_def)

subsection \<open>The stages of the combiner\<close>

lemma combine_prepare_Inr:
  assumes "combine_prepare p imgs iw ih w = Inr (i, w')"
  shows "video_scene_count w' = Suc (video_scene_count w - 1)"
    and "scene w' = scene w" and "fs w' = fs w" and "raises w' = raises w"
    and "reports w' = reports w" and "calls w' = calls w"
    and "scene_name (scene w) \<noteq> video_scene_name"
    and "\<exists>s. scene_at i w' = Some s \<and> scene_name s = video_scene_name
             \<and> resolution_x (render s) = clamp_resolution (round_even iw)
             \<and> resolution_y (render s) = clamp_resolution (round_even ih)"
proof -
  from assms obtain w1 where r: "remove_video_scene w = Inr w1"
    by (auto simp: combine_prepare_def Let_def split: sum.splits)
  note f = remove_video_scene_Inr [OF r]
  define w2 where "w2 = snd (scenes_new video_scene_name w1)"
  have i: "i = length (other_scenes w1)"
    using assms r by (auto simp: combine_prepare_def Let_def scenes_new_def split: prod.splits)
  have c2: "video_scene_count w2 = Suc (video_scene_count w1)"
    by (simp add: w2_def scenes_new_def video_scene_count_def data_scenes_def)
  have w': "w' = update_scene i (\<lambda>s. s\<lparr>render := (render s)\<lparr>filepath := p\<rparr>\<rparr>)
             (update_scene i (\<lambda>s. s\<lparr>sequence_editor := Some []\<rparr>)
             (update_scene i (\<lambda>s. if sequence_editor s = None then s\<lparr>sequence_editor := Some []\<rparr> else s)
             (update_scene i
                         (\<lambda>s. s\<lparr>render := (render s)
                                  \<lparr>resolution_x := clamp_resolution (round_even iw),
                                   resolution_y := clamp_resolution (round_even ih),
                                   fps := fps (render (scene w)),
                                   file_format := ''FFMPEG'',
                                   ffmpeg_format := ''MPEG4'',
                                   ffmpeg_codec := ''H264'',
                                   constant_rate_factor := ''HIGH'',
                                   ffmpeg_preset := ''GOOD''\<rparr>,
                                 frame_start := 1,
                                 frame_end := int (length imgs)\<rparr>) w2)))"
    using assms r by (auto simp: combine_prepare_def Let_def w2_def scenes_new_def split: prod.splits)
  show "video_scene_count w' = Suc (video_scene_count w - 1)"
    by (simp add: w' update_scene_count c2 f)
  show "scene w' = scene w" "fs w' = fs w" "raises w' = raises w"
    "reports w' = reports w" "calls w' = calls w"
    by (simp_all add: w' update_scene_frame w2_def scenes_new_def f)
  show "scene_name (scene w) \<noteq> video_scene_name" by (rule f)
  have "scene_at i w2 = Some ((scene_template w1)\<lparr>scene_name := video_scene_name\<rparr>)"
    by (simp add: scene_at_def w2_def scenes_new_def i)
  then show "\<exists>s. scene_at i w' = Some s \<and> scene_name s = video_scene_name
             \<and> resolution_x (render s) = clamp_resolution (round_even iw)
             \<and> resolution_y (render s) = clamp_resolution (round_even ih)"
    by (simp add: w' scene_at_update_scene)
qed

lemma combine_prepare_Inl:
  assumes "combine_prepare p imgs iw ih w = Inl e"
  shows "scene_name (scene w) = video_scene_name"
proof -
  from assms obtain x where "remove_video_scene w = Inl x"
    by (auto simp: combine_prepare_def Let_def split: sum.splits prod.splits)
  then show ?thesis by (rule remove_video_scene_Inl)
qed

lemma combine_encode_frame:
  assumes "combine_encode i fp imgs w = (r, w')"
  shows "video_scene_count w' = video_scene_count w"
    and "scene w' = scene w" and "fs w' = fs w" and "raises w' = raises w"
    and "reports w' = reports w"
    and "r = None \<longleftrightarrow> raises w G_new_image = None \<and> raises w G_render = None"
proof -
  let ?f = "\<lambda>st s. s\<lparr>sequence_editor :=
                  (case sequence_editor s of None \<Rightarrow> Some [st] | Some ss \<Rightarrow> Some (ss @ [st]))\<rparr>"
  have n: "\<And>st v. video_scene_count (update_scene i (?f st) v) = video_scene_count v"
    by (rule update_scene_count) simp
  have m: "\<And>v n. video_scene_count (v\<lparr>window_scene := n\<rparr>) = video_scene_count v"
    "\<And>v c. video_scene_count (call c v) = video_scene_count v"
    by (simp_all add: video_scene_count_def data_scenes_def call_def)
  show "video_scene_count w' = video_scene_count w"
    using assms
    by (auto simp: combine_encode_def Let_def n m split: option.splits)
  show "scene w' = scene w" "fs w' = fs w" "raises w' = raises w" "reports w' = reports w"
    using assms
    by (auto simp: combine_encode_def Let_def update_scene_frame call_def split: option.splits)
  show "r = None \<longleftrightarrow> raises w G_new_image = None \<and> raises w G_render = None"
    using assms
    by (auto simp: combine_encode_def Let_def split: option.splits)
qed

lemma report_frame:
  "video_scene_count (report l m w) = video_scene_count w"
  "scene (report l m w) = scene w" "fs (report l m w) = fs w"
  "raises (report l m w) = raises w" "calls (report l m w) = calls w"
  "reports (report l m w) = reports w @ [(l, m)]"
  "in_scenes n (report l m w) = in_scenes n w"
  "path_exists (report l m w) p = path_exists w p"
  by (simp_all add: report_def video_scene_count_def data_scenes_def in_scenes_def path_exists_def)

lemma rmtree_Inr:
  assumes "rmtree p w = Inr w'"
  shows "video_scene_count w' = video_scene_count w" and "scene w' = scene w"
    and "reports w' = reports w" and "fs w' p = None" and "raises w G_rmtree = None"
  using assms
  by (auto simp: rmtree_def video_scene_count_def data_scenes_def
      split: option.splits node.splits)

lemma rmtree_Inl:
  assumes "rmtree p w = Inl e" and "fs w p = Some (Dir es)"
  shows "raises w G_rmtree = Some e"
  using assms by (auto simp: rmtree_def split: option.splits node.splits)

lemma rmtree_ok:
  assumes "raises w G_rmtree = None" and "fs w p = Some (Dir es)"
  shows "\<exists>w'. rmtree p w = Inr w'"
  using assms by (simp add: rmtree_def)

lemma combine_failed_result:
  assumes "scene_name (scene w) \<noteq> video_scene_name"
  shows "\<exists>w'. combine_failed e w = (Inr CANCELLED, w')
           \<and> video_scene_count w' = video_scene_count w - 1
           \<and> (ERROR, ''Error creating video: '' @ e) \<in> set (reports w')
           \<and> fs w' = fs w \<and> scene w' = scene w"
proof -
  let ?w1 = "report ERROR (''Error creating video: '' @ e) w"
  have "scene_name (scene ?w1) \<noteq> video_scene_name" using assms by (simp add: report_frame)
  then obtain w2 where r: "remove_video_scene ?w1 = Inr w2"
    by (cases "remove_video_scene ?w1") (auto dest: remove_video_scene_Inl)
  note f = remove_video_scene_Inr [OF r]
  have "combine_failed e w = (Inr CANCELLED, w2)"
    using r by (simp add: combine_failed_def Let_def)
  moreover have "video_scene_count w2 = video_scene_count w - 1"
    by (simp add: f report_frame)
  moreover have "(ERROR, ''Error creating video: '' @ e) \<in> set (reports w2)"
    by (simp add: f report_frame)
  moreover have "fs w2 = fs w" "scene w2 = scene w" by (simp_all add: f report_frame)
  ultimately show ?thesis by blast
qed

lemma combine_finish_result:
  assumes "scene_name (scene w) \<noteq> video_scene_name" and "fs w tmp = Some (Dir es)"
  shows "\<exists>w'. combine_finish u tmp w = (Inr FINISHED, w')
           \<and> video_scene_count w' = video_scene_count w - 1
           \<and> scene w' = scene w
           \<and> (case raises w G_rmtree of
                 None \<Rightarrow> \<not> path_exists w' tmp
                          \<and> (INFO, ''Temporary image folder deleted'') \<in> set (reports w')
               | Some x \<Rightarrow> fs w' = fs w
                          \<and> (WARNING, ''Could not delete temp folder: '' @ x) \<in> set (reports w'))"
proof (cases "raises w G_rmtree")
  case None
  then obtain v where v: "rmtree tmp w = Inr v" using rmtree_ok assms(2) by blast
  note g = rmtree_Inr [OF v]
  let ?w1 = "report INFO ''Temporary image folder deleted'' v"
  have "scene_name (scene ?w1) \<noteq> video_scene_name" using assms by (simp add: report_frame g)
  then obtain w2 where r: "remove_video_scene ?w1 = Inr w2"
    by (cases "remove_video_scene ?w1") (auto dest: remove_video_scene_Inl)
  note f = remove_video_scene_Inr [OF r]
  let ?w' = "report INFO (''Video completed: '' @ u) w2"
  have "combine_finish u tmp w = (Inr FINISHED, ?w')"
    using r by (simp add: combine_finish_def Let_def v)
  moreover have "video_scene_count ?w' = video_scene_count w - 1"
    by (simp add: f report_frame g)
  moreover have "scene ?w' = scene w" by (simp add: f report_frame g)
  moreover have "\<not> path_exists ?w' tmp"
    by (simp add: path_exists_def report_def f g)
  moreover have "(INFO, ''Temporary image folder deleted'') \<in> set (reports ?w')"
    by (simp add: f report_frame)
  ultimately show ?thesis using None by simp
next
  case (Some x)
  then have v: "rmtree tmp w = Inl x" by (simp add: rmtree_def)
  let ?w1 = "report WARNING (''Could not delete temp folder: '' @ x) w"
  have "scene_name (scene ?w1) \<noteq> video_scene_name" using assms by (simp add: report_frame)
  then obtain w2 where r: "remove_video_scene ?w1 = Inr w2"
    by (cases "remove_video_scene ?w1") (auto dest: remove_video_scene_Inl)
  note f = remove_video_scene_Inr [OF r]
  let ?w' = "report INFO (''Video completed: '' @ u) w2"
  have "combine_finish u tmp w = (Inr FINISHED, ?w')"
    using r by (simp add: combine_finish_def Let_def v)
  moreover have "video_scene_count ?w' = video_scene_count w - 1"
    by (simp add: f report_frame)
  moreover have "scene ?w' = scene w" by (simp add: f report_frame)
  moreover have "fs ?w' = fs w" by (simp add: f report_frame)
  moreover have "(WARNING, ''Could not delete temp folder: '' @ x) \<in> set (reports ?w')"
    by (simp add: f report_frame)
  ultimately show ?thesis using Some by simp
qed

text \<open>What \<open>execute\<close> does once the list of images is not empty.\<close>

lemma combine_images_result:
  assumes dir: "fs w tmp = Some (Dir es)"
    and res: "combine_images u tmp first_image more_images w = (r, w')"
  shows "(\<exists>e. r = Inl e \<and> w' = w)
       \<or> (\<exists>st. r = Inr st
            \<and> video_scene_count w' = video_scene_count w - 1
            \<and> scene_name (scene w) \<noteq> video_scene_name
            \<and> (if raises w G_new_image = None \<and> raises w G_render = None
                then st = FINISHED
                     \<and> (case raises w G_rmtree of
                          None \<Rightarrow> \<not> path_exists w' tmp
                                   \<and> (INFO, ''Temporary image folder deleted'') \<in> set (reports w')
                        | Some x \<Rightarrow> fs w' = fs w
                                   \<and> (WARNING, ''Could not delete temp folder: '' @ x) \<in> set (reports w'))
                else st = CANCELLED
                     \<and> (\<exists>e. (ERROR, ''Error creating video: '' @ e) \<in> set (reports w'))))"
proof (cases "images w (path_join tmp first_image)")
  case None
  with res have "r = Inl RuntimeError" "w' = w" by (auto simp: combine_images_def)
  then show ?thesis by blast
next
  case (Some sz)
  obtain iw ih where sz: "sz = (iw, ih)" by (cases sz)
  show ?thesis
  proof (cases "combine_prepare u (first_image # more_images) iw ih w")
    case (Inl e)
    with res Some sz have "r = Inl e" "w' = w" by (auto simp: combine_images_def)
    then show ?thesis by blast
  next
    case (Inr iv)
    obtain i w1 where iv: "iv = (i, w1)" by (cases iv)
    note p = combine_prepare_Inr [OF Inr [unfolded iv]]
    obtain x w2 where enc:
      "combine_encode i (path_join tmp first_image) (first_image # more_images) w1 = (x, w2)"
      by (cases "combine_encode i (path_join tmp first_image) (first_image # more_images) w1")
    note e = combine_encode_frame [OF enc]
    have nm: "scene_name (scene w2) \<noteq> video_scene_name" by (simp add: e p)
    have cnt: "video_scene_count w2 - 1 = video_scene_count w - 1" by (simp add: e p)
    show ?thesis
    proof (cases x)
      case None
      then have ok: "raises w G_new_image = None \<and> raises w G_render = None"
        using e(6) by (simp add: p)
      have d2: "fs w2 tmp = Some (Dir es)" by (simp add: e p dir)
      from combine_finish_result [OF nm d2, of u] obtain v where
        v: "combine_finish u tmp w2 = (Inr FINISHED, v)"
          "video_scene_count v = video_scene_count w2 - 1"
          "(case raises w2 G_rmtree of
                 None \<Rightarrow> \<not> path_exists v tmp
                          \<and> (INFO, ''Temporary image folder deleted'') \<in> set (reports v)
               | Some x \<Rightarrow> fs v = fs w2
                          \<and> (WARNING, ''Could not delete temp folder: '' @ x) \<in> set (reports v))"
        by blast
      have "r = Inr FINISHED" "w' = v"
        using res Some sz Inr iv enc None v(1) by (simp_all add: combine_images_def)
      with v ok cnt p(7) show ?thesis by (auto simp: e p split: option.splits)
    next
      case (Some msg)
      then have bad: "\<not> (raises w G_new_image = None \<and> raises w G_render = None)"
        using e(6) by (simp add: p)
      from combine_failed_result [OF nm, of msg] obtain v where
        v: "combine_failed msg w2 = (Inr CANCELLED, v)"
          "video_scene_count v = video_scene_count w2 - 1"
          "(ERROR, ''Error creating video: '' @ msg) \<in> set (reports v)"
        by blast
      have "r = Inr CANCELLED" "w' = v"
        using res \<open>images w (path_join tmp first_image) = Some sz\<close> sz Inr iv enc Some v(1)
        by (simp_all add: combine_images_def)
      with v bad cnt p(7) show ?thesis by auto
    qed
  qed
qed

lemma folder_temp_of_nonempty: "folder_temp_of u \<noteq> []"
  by (simp add: folder_temp_of_def path_join_def Let_def)

text \<open>\<open>execute\<close> past the two checks.\<close>

lemma combine_past_checks:
  assumes "tmp = folder_temp_of (abspath w (render_filepath (qp_props (scene w))))"
    and "fs w tmp = Some (Dir es)"
    and "filter (\<lambda>f. endswith f ''.png'') es \<noteq> []"
  shows "\<exists>first_image more_images.
           combine_images_to_video_execute w =
             combine_images (abspath w (render_filepath (qp_props (scene w)))) tmp
               first_image more_images w"
proof -
  have "sort (filter (\<lambda>f. endswith f ''.png'') es) \<noteq> []"
    using assms(3) by (metis length_sort length_0_conv)
  then obtain a b where ab: "sort (filter (\<lambda>f. endswith f ''.png'') es) = a # b"
    by (cases "sort (filter (\<lambda>f. endswith f ''.png'') es)") auto
  have "path_exists w tmp"
    using assms(1,2) by (simp add: path_exists_def folder_temp_of_nonempty)
  then show ?thesis
    using assms(1,2) ab
    by (auto simp: combine_images_to_video_execute_def Let_def listdir_def)
qed

subsection \<open>The combiner\<close>

lemma demo_prepare:
  "\<exists>w'. combine_prepare ''/out/quadview_render.mp4'' [''quadview_frame_0001.png''] 101 51
          demo_captured = Inr (0, w')"
  by (simp add: combine_prepare_def remove_video_scene_def in_scenes_def data_scenes_def
      scenes_remove_def scenes_new_def demo_captured_def demo_world_def demo_scene_def
      video_scene_name_def Let_def)

text \<open>
  C3. When the frame directory does not exist, or is a directory that holds no file
  ending in \<open>.png\<close>, the combiner returns \<open>CANCELLED\<close>; the world it leaves differs from
  the one it found by one error report only: no scene was created and no host command,
  so no render, was invoked.
\<close>

theorem combine_missing_or_empty:
  assumes "tmp = folder_temp_of (abspath w (render_filepath (qp_props (scene w))))"
    and "\<not> path_exists w tmp
         \<or> (\<exists>es. fs w tmp = Some (Dir es) \<and> filter (\<lambda>f. endswith f ''.png'') es = [])"
  shows "fst (combine_images_to_video_execute w) = Inr CANCELLED
       \<and> (\<exists>msg. snd (combine_images_to_video_execute w) = w\<lparr>reports := reports w @ [(ERROR, msg)]\<rparr>)
       \<and> data_scenes (snd (combine_images_to_video_execute w)) = data_scenes w
       \<and> calls (snd (combine_images_to_video_execute w)) = calls w"
proof -
  have "\<exists>msg. combine_images_to_video_execute w
                = (Inr CANCELLED, w\<lparr>reports := reports w @ [(ERROR, msg)]\<rparr>)"
  proof (cases "path_exists w tmp")
    case False
    then have "combine_images_to_video_execute w
       = (Inr CANCELLED, w\<lparr>reports := reports w @ [(ERROR, ''Temporary image folder does not exist.'')]\<rparr>)"
      using assms(1) by (simp add: combine_images_to_video_execute_def report_def)
    then show ?thesis by blast
  next
    case True
    with assms(2) obtain es where
      "fs w tmp = Some (Dir es)" "filter (\<lambda>f. endswith f ''.png'') es = []" by blast
    with True have "combine_images_to_video_execute w
       = (Inr CANCELLED, w\<lparr>reports := reports w @ [(ERROR, ''No images found to combine into a video.'')]\<rparr>)"
      using assms(1)
      by (simp add: combine_images_to_video_execute_def report_def listdir_def)
    then show ?thesis by blast
  qed
  then obtain msg where
    "combine_images_to_video_execute w = (Inr CANCELLED, w\<lparr>reports := reports w @ [(ERROR, msg)]\<rparr>)"
    by blast
  then show ?thesis by (auto simp: data_scenes_def)
qed

lemma demo_folder_temp:
  "folder_temp_of (abspath demo_world (render_filepath (qp_props (scene demo_world))))
     = ''/out/quadview_render_temp''"
  by code_simp

theorem combine_missing_or_empty_witness:
  "combine_images_to_video_execute demo_world =
     (Inr CANCELLED, demo_world\<lparr>reports := [(ERROR, ''Temporary image folder does not exist.'')]\<rparr>)
   \<and> combine_images_to_video_execute demo_no_images =
     (Inr CANCELLED, demo_no_images\<lparr>reports := [(ERROR, ''No images found to combine into a video.'')]\<rparr>)"
proof -
  have a: "\<not> path_exists demo_world ''/out/quadview_render_temp''"
    by (simp add: path_exists_def demo_world_def)
  have t: "''/out/quadview_render_temp''
             = folder_temp_of (abspath demo_no_images (render_filepath (qp_props (scene demo_no_images))))"
    by code_simp
  have b: "fs demo_no_images ''/out/quadview_render_temp'' = Some (Dir [''notes.txt''])
           \<and> filter (\<lambda>f. endswith f ''.png'') [''notes.txt''] = []"
    by (simp add: demo_no_images_def endswith_def)
  have r1: "reports demo_world = []" "reports demo_no_images = []"
    by (simp_all add: demo_world_def demo_no_images_def)
  from combine_missing_or_empty [OF demo_folder_temp [symmetric]] a
  obtain m1 where m1: "fst (combine_images_to_video_execute demo_world) = Inr CANCELLED"
    "snd (combine_images_to_video_execute demo_world) = demo_world\<lparr>reports := [(ERROR, m1)]\<rparr>"
    by (auto simp: r1)
  from combine_missing_or_empty [OF t] b
  obtain m2 where m2: "fst (combine_images_to_video_execute demo_no_images) = Inr CANCELLED"
    "snd (combine_images_to_video_execute demo_no_images) = demo_no_images\<lparr>reports := [(ERROR, m2)]\<rparr>"
    by (auto simp: r1)
  have "reports (snd (combine_images_to_video_execute demo_world))
          = [(ERROR, ''Temporary image folder does not exist.'')]"
    "reports (snd (combine_images_to_video_execute demo_no_images))
          = [(ERROR, ''No images found to combine into a video.'')]"
    by code_simp+
  with m1 m2 have "m1 = ''Temporary image folder does not exist.''"
    "m2 = ''No images found to combine into a video.''" by simp_all
  with m1 m2 show ?thesis by (simp add: prod_eq_iff)
qed

text \<open>
  C7. Let the combiner get past its two checks, in a world where at most one scene has
  the reserved name (as the host keeps scene names unique), and let it return. Then no
  scene of the reserved name is left. If nothing raised in the encoding block the
  status is \<open>FINISHED\<close> and the frame directory is gone; when its deletion failed, a
  warning is reported instead and the status is \<open>FINISHED\<close> all the same. If the
  encoding block raised, the status is \<open>CANCELLED\<close> and the error is reported.
\<close>

theorem combine_cleans_up:
  assumes "tmp = folder_temp_of (abspath w (render_filepath (qp_props (scene w))))"
    and "fs w tmp = Some (Dir es)"
    and "filter (\<lambda>f. endswith f ''.png'') es \<noteq> []"
    and "video_scene_count w \<le> 1"
    and "combine_images_to_video_execute w = (Inr st, w')"
  shows "\<not> in_scenes video_scene_name w'
       \<and> (if raises w G_new_image = None \<and> raises w G_render = None
          then st = FINISHED
               \<and> (case raises w G_rmtree of
                    None \<Rightarrow> \<not> path_exists w' tmp
                             \<and> (INFO, ''Temporary image folder deleted'') \<in> set (reports w')
                  | Some x \<Rightarrow> fs w' = fs w
                             \<and> (WARNING, ''Could not delete temp folder: '' @ x) \<in> set (reports w'))
          else st = CANCELLED
               \<and> (\<exists>e. (ERROR, ''Error creating video: '' @ e) \<in> set (reports w')))"
proof -
  from combine_past_checks [OF assms(1-3)] obtain a b where
    "combine_images_to_video_execute w =
       combine_images (abspath w (render_filepath (qp_props (scene w)))) tmp a b w"
    by blast
  with assms(5) have
    "combine_images (abspath w (render_filepath (qp_props (scene w)))) tmp a b w = (Inr st, w')"
    by simp
  from combine_images_result [OF assms(2) this] assms(4)
  show ?thesis by (auto simp: in_scenes_count)
qed

text \<open>The combiner returns whenever the first frame can be loaded and the scene it runs
  in does not have the reserved name.\<close>

lemma combine_returns:
  assumes "tmp = folder_temp_of (abspath w (render_filepath (qp_props (scene w))))"
    and "fs w tmp = Some (Dir es)"
    and "sort (filter (\<lambda>f. endswith f ''.png'') es) = a # b"
    and "images w (path_join tmp a) = Some sz"
    and "scene_name (scene w) \<noteq> video_scene_name"
  shows "\<exists>st w'. combine_images_to_video_execute w = (Inr st, w')"
proof -
  let ?u = "abspath w (render_filepath (qp_props (scene w)))"
  have "path_exists w tmp"
    using assms(1,2) by (simp add: path_exists_def folder_temp_of_nonempty)
  then have ex: "combine_images_to_video_execute w = combine_images ?u tmp a b w"
    using assms(1-3) by (simp add: combine_images_to_video_execute_def Let_def listdir_def)
  obtain r w' where rw: "combine_images ?u tmp a b w = (r, w')"
    by (cases "combine_images ?u tmp a b w")
  have "\<exists>st. r = Inr st"
  proof (cases r)
    case (Inl e)
    obtain iw ih where sz: "sz = (iw, ih)" by (cases sz)
    have "combine_prepare ?u (a # b) iw ih w \<noteq> Inl e" for e
      using combine_prepare_Inl assms(5) by blast
    then obtain i w1 where p: "combine_prepare ?u (a # b) iw ih w = Inr (i, w1)"
      by (cases "combine_prepare ?u (a # b) iw ih w") auto
    note pf = combine_prepare_Inr [OF p]
    obtain x w2 where enc: "combine_encode i (path_join tmp a) (a # b) w1 = (x, w2)"
      by (cases "combine_encode i (path_join tmp a) (a # b) w1")
    note e = combine_encode_frame [OF enc]
    have nm: "scene_name (scene w2) \<noteq> video_scene_name" by (simp add: e pf assms(5))
    have d2: "fs w2 tmp = Some (Dir es)" by (simp add: e pf assms(2))
    have "\<exists>st v. combine_images ?u tmp a b w = (Inr st, v)"
    proof (cases x)
      case None
      with combine_finish_result [OF nm d2, of ?u] show ?thesis
        using assms(4) sz p enc by (auto simp: combine_images_def)
    next
      case (Some m)
      with combine_failed_result [OF nm, of m] show ?thesis
        using assms(4) sz p enc by (auto simp: combine_images_def)
    qed
    with rw Inl show ?thesis by simp
  next
    case (Inr st)
    then show ?thesis by blast
  qed
  with ex rw show ?thesis by auto
qed
lemma combine_count_le:
  "video_scene_count (snd (combine_images_to_video_execute w)) \<le> video_scene_count w"
proof -
  let ?tmp = "folder_temp_of (abspath w (render_filepath (qp_props (scene w))))"
  let ?u = "abspath w (render_filepath (qp_props (scene w)))"
  show ?thesis
  proof (cases "path_exists w ?tmp")
    case False
    then show ?thesis
      by (simp add: combine_images_to_video_execute_def report_frame)
  next
    case True
    show ?thesis
    proof (cases "fs w ?tmp")
      case None
      with True show ?thesis by (simp add: path_exists_def)
    next
      case (Some nd)
      show ?thesis
      proof (cases nd)
        case File
        with True Some show ?thesis
          by (simp add: combine_images_to_video_execute_def listdir_def)
      next
        case (Dir es)
        show ?thesis
        proof (cases "sort (filter (\<lambda>f. endswith f ''.png'') es)")
          case Nil
          with True Some Dir show ?thesis
            by (simp add: combine_images_to_video_execute_def listdir_def report_frame)
        next
          case (Cons a b)
          with True Some Dir have ex:
            "combine_images_to_video_execute w = combine_images ?u ?tmp a b w"
            by (simp add: combine_images_to_video_execute_def listdir_def Let_def)
          obtain r w' where rw: "combine_images ?u ?tmp a b w = (r, w')"
            by (cases "combine_images ?u ?tmp a b w")
          from combine_images_result [OF _ rw, of es] Some Dir
          have "w' = w \<or> video_scene_count w' = video_scene_count w - 1" by auto
          with ex rw show ?thesis by auto
        qed
      qed
    qed
  qed
qed

text \<open>
  C10. At most one scene has the reserved name, before and after every invocation of the
  combiner, however often it is invoked and however it ends: an invocation never adds
  to their number, and a scene of that name left by an earlier run is removed before
  the new render scene is created, which is then the only one.
\<close>

theorem combine_never_accumulates:
  assumes "video_scene_count w \<le> 1"
  shows "video_scene_count (snd (combine_images_to_video_execute w)) \<le> 1
       \<and> video_scene_count (combine_repeatedly n w) \<le> 1
       \<and> (combine_prepare p imgs iw ih w = Inr (i, w') \<longrightarrow> video_scene_count w' = 1)"
proof -
  have "video_scene_count (combine_repeatedly k w) \<le> video_scene_count w" for k
  proof (induction k)
    case 0
    show ?case by (simp add: combine_repeatedly_def)
  next
    case (Suc k)
    have "video_scene_count (combine_repeatedly (Suc k) w)
            \<le> video_scene_count (combine_repeatedly k w)"
      by (simp add: combine_repeatedly_def combine_count_le)
    with Suc show ?case by simp
  qed
  from this [of n] assms have "video_scene_count (combine_repeatedly n w) \<le> 1" by simp
  moreover have "video_scene_count (snd (combine_images_to_video_execute w)) \<le> 1"
    using combine_count_le [of w] assms by simp
  moreover have "combine_prepare p imgs iw ih w = Inr (i, w') \<longrightarrow> video_scene_count w' = 1"
    using combine_prepare_Inr(1) [of p imgs iw ih w i w'] assms by auto
  ultimately show ?thesis by blast
qed

lemma demo_captured_facts:
  "''/out/quadview_render_temp''
     = folder_temp_of (abspath demo_captured (render_filepath (qp_props (scene demo_captured))))"
  "''/out/quadview_render_temp''
     = folder_temp_of (abspath demo_render_fails (render_filepath (qp_props (scene demo_render_fails))))"
  "''/out/quadview_render_temp''
     = folder_temp_of (abspath demo_rmtree_fails (render_filepath (qp_props (scene demo_rmtree_fails))))"
  "fs demo_captured ''/out/quadview_render_temp'' = Some (Dir [''notes.txt'', ''quadview_frame_0001.png''])"
  "fs demo_render_fails ''/out/quadview_render_temp'' = Some (Dir [''notes.txt'', ''quadview_frame_0001.png''])"
  "fs demo_rmtree_fails ''/out/quadview_render_temp'' = Some (Dir [''notes.txt'', ''quadview_frame_0001.png''])"
  "filter (\<lambda>f. endswith f ''.png'') [''notes.txt'', ''quadview_frame_0001.png''] \<noteq> []"
  "video_scene_count demo_captured \<le> 1"
  "video_scene_count demo_render_fails \<le> 1"
  "video_scene_count demo_rmtree_fails \<le> 1"
  by code_simp+

lemma demo_captured_runs:
  "fst (combine_images_to_video_execute demo_captured) = Inr FINISHED"
  "fst (combine_images_to_video_execute demo_render_fails) = Inr CANCELLED"
  "fst (combine_images_to_video_execute demo_rmtree_fails) = Inr FINISHED"
  by code_simp+

theorem combine_cleans_up_witness:
  "fst (combine_images_to_video_execute demo_captured) = Inr FINISHED
   \<and> \<not> in_scenes video_scene_name (snd (combine_images_to_video_execute demo_captured))
   \<and> \<not> path_exists (snd (combine_images_to_video_execute demo_captured)) ''/out/quadview_render_temp''
   \<and> fst (combine_images_to_video_execute demo_render_fails) = Inr CANCELLED
   \<and> \<not> in_scenes video_scene_name (snd (combine_images_to_video_execute demo_render_fails))
   \<and> fst (combine_images_to_video_execute demo_rmtree_fails) = Inr FINISHED
   \<and> \<not> in_scenes video_scene_name (snd (combine_images_to_video_execute demo_rmtree_fails))
   \<and> (WARNING, ''Could not delete temp folder: permission denied'')
       \<in> set (reports (snd (combine_images_to_video_execute demo_rmtree_fails)))"
proof -
  have r: "raises demo_captured = (\<lambda>g. None)"
    "raises demo_render_fails G_new_image = None"
    "raises demo_render_fails G_render = Some ''disk full''"
    "raises demo_rmtree_fails G_new_image = None"
    "raises demo_rmtree_fails G_render = None"
    "raises demo_rmtree_fails G_rmtree = Some ''permission denied''"
    by (simp_all add: demo_captured_def demo_world_def demo_render_fails_def demo_rmtree_fails_def)
  have a: "combine_images_to_video_execute demo_captured
             = (Inr FINISHED, snd (combine_images_to_video_execute demo_captured))"
    using demo_captured_runs(1) by (simp add: prod_eq_iff)
  have b: "combine_images_to_video_execute demo_render_fails
             = (Inr CANCELLED, snd (combine_images_to_video_execute demo_render_fails))"
    using demo_captured_runs(2) by (simp add: prod_eq_iff)
  have c: "combine_images_to_video_execute demo_rmtree_fails
             = (Inr FINISHED, snd (combine_images_to_video_execute demo_rmtree_fails))"
    using demo_captured_runs(3) by (simp add: prod_eq_iff)
  show ?thesis
    using combine_cleans_up [OF demo_captured_facts(1) demo_captured_facts(4) demo_captured_facts(7)
            demo_captured_facts(8) a]
      combine_cleans_up [OF demo_captured_facts(2) demo_captured_facts(5) demo_captured_facts(7)
            demo_captured_facts(9) b]
      combine_cleans_up [OF demo_captured_facts(3) demo_captured_facts(6) demo_captured_facts(7)
            demo_captured_facts(10) c]
      demo_captured_runs
    by (simp add: r)
qed

lemma demo_captured_count:
  "video_scene_count (snd (combine_images_to_video_execute demo_captured)) = 0"
  by code_simp

theorem combine_never_accumulates_witness:
  "video_scene_count demo_captured = 1
   \<and> video_scene_count (snd (combine_images_to_video_execute demo_captured)) = 0
   \<and> video_scene_count (combine_repeatedly 3 demo_captured) \<le> 1
   \<and> (\<exists>w'. combine_prepare ''/out/quadview_render.mp4'' [''quadview_frame_0001.png''] 101 51
             demo_captured = Inr (0, w') \<and> video_scene_count w' = 1)"
proof -
  have c: "video_scene_count demo_captured = 1" by code_simp
  then have le: "video_scene_count demo_captured \<le> 1" by simp
  from demo_prepare obtain w' where
    p: "combine_prepare ''/out/quadview_render.mp4'' [''quadview_frame_0001.png''] 101 51
          demo_captured = Inr (0, w')" ..
  from combine_never_accumulates [OF le, of 3 "''/out/quadview_render.mp4''"
         "[''quadview_frame_0001.png'']" 101 51 0 w'] p
  have "video_scene_count w' = 1" "video_scene_count (combine_repeatedly 3 demo_captured) \<le> 1"
    by simp_all
  with p c demo_captured_count show ?thesis by blast
qed

subsection \<open>The visibility flags\<close>

lemma makedirs_spaces:
  assumes "makedirs p w = Inr w'"
  shows "spaces w' = spaces w" and "space_data w' = space_data w" and "areas w' = areas w"
  using assms by (auto simp: makedirs_def split: if_splits option.splits node.splits)

lemma call_spaces:
  "spaces (call c w) = spaces w" "space_data (call c w) = space_data w"
  by (simp_all add: call_def)

lemma report_spaces:
  "spaces (report l m w) = spaces w" "space_data (report l m w) = space_data w"
  by (simp_all add: report_def)

lemma screenshot_area_spaces:
  "spaces (screenshot_area a r p w) = spaces w"
  "space_data (screenshot_area a r p w) = space_data w"
  by (simp_all add: screenshot_area_def call_def)

lemma set_region_flags_spaces:
  "space_data (set_region_flags sp u t w) = space_data w"
  "show_region_ui (spaces (set_region_flags sp u t w) s)
     = (if s = sp then u else show_region_ui (spaces w s))"
  "show_region_toolbar (spaces (set_region_flags sp u t w) s)
     = (if s = sp then t else show_region_toolbar (spaces w s))"
  "show_gizmo (spaces (set_region_flags sp u t w) s) = show_gizmo (spaces w s)"
  "show_region_tool_header (spaces (set_region_flags sp u t w) s)
     = show_region_tool_header (spaces w s)"
  by (simp_all add: set_region_flags_def)

lemma set_show_gizmo_spaces:
  "space_data (set_show_gizmo b w) = space_data w"
  "show_region_ui (spaces (set_show_gizmo b w) s) = show_region_ui (spaces w s)"
  "show_region_toolbar (spaces (set_show_gizmo b w) s) = show_region_toolbar (spaces w s)"
  "show_gizmo (spaces (set_show_gizmo b w) s)
     = (if space_data w = Some s then map_option (\<lambda>old. b) (show_gizmo (spaces w s))
        else show_gizmo (spaces w s))"
  "show_region_tool_header (spaces (set_show_gizmo b w) s)
     = show_region_tool_header (spaces w s)"
  by (auto simp: set_show_gizmo_def split: option.splits)

lemma set_show_region_tool_header_spaces:
  "space_data (set_show_region_tool_header b w) = space_data w"
  "show_region_ui (spaces (set_show_region_tool_header b w) s) = show_region_ui (spaces w s)"
  "show_region_toolbar (spaces (set_show_region_tool_header b w) s)
     = show_region_toolbar (spaces w s)"
  "show_gizmo (spaces (set_show_region_tool_header b w) s) = show_gizmo (spaces w s)"
  "show_region_tool_header (spaces (set_show_region_tool_header b w) s)
     = (if space_data w = Some s
        then map_option (\<lambda>old. b) (show_region_tool_header (spaces w s))
        else show_region_tool_header (spaces w s))"
  by (auto simp: set_show_region_tool_header_def split: option.splits)

lemmas flag_simps =
  call_spaces report_spaces screenshot_area_spaces set_region_flags_spaces
  set_show_gizmo_spaces set_show_region_tool_header_spaces

subsection \<open>The single-frame capture\<close>

text \<open>What \<open>execute\<close> leaves when it answers \<open>RUNNING_MODAL\<close>.\<close>

lemma screenshot_execute_running:
  assumes "screenshot_quadview_execute w = (Inr RUNNING_MODAL, self, w1)"
  shows "\<exists>a. find (\<lambda>a. area_type a = ''VIEW_3D'') (areas w) = Some a
           \<and> s_view3d_area self = Some a
           \<and> s_ui_was_visible self = show_region_ui (spaces w (spaces_active a))
           \<and> s_toolbar_was_visible self = show_region_toolbar (spaces w (spaces_active a))"
    and "space_data w1 = space_data w"
    and "\<And>s. show_gizmo (spaces w1 s)
           = (if space_data w = Some s then map_option (\<lambda>old. False) (show_gizmo (spaces w s))
              else show_gizmo (spaces w s))"
    and "\<And>s. show_region_tool_header (spaces w1 s)
           = (if space_data w = Some s
              then map_option (\<lambda>old. False) (show_region_tool_header (spaces w s))
              else show_region_tool_header (spaces w s))"
    and "\<And>a. s_view3d_area self = Some a \<Longrightarrow>
           \<not> show_region_ui (spaces w1 (spaces_active a))
           \<and> \<not> show_region_toolbar (spaces w1 (spaces_active a))"
proof -
  from assms obtain a j v where
    a: "find (\<lambda>a. area_type a = ''VIEW_3D'') (areas w) = Some a"
    and j: "first_index (\<lambda>r. r = ''WINDOW'') (regions a) = Some j"
    and v: "makedirs (dirname (abspath w (render_filepath (qp_props (scene w))))) w = Inr v"
    by (auto simp: screenshot_quadview_execute_def Let_def
        split: option.splits sum.splits)
  note m = makedirs_spaces [OF v]
  let ?sp = "spaces_active a"
  have w1: "w1 = call Modal_handler_add (call (Event_timer_add 200) (call View_layer_update
              (set_show_region_tool_header False (set_show_gizmo False
                (set_region_flags ?sp False False v)))))"
    and self: "s_view3d_area self = Some a"
      "s_ui_was_visible self = show_region_ui (spaces v ?sp)"
      "s_toolbar_was_visible self = show_region_toolbar (spaces v ?sp)"
    using assms a j v by (auto simp: screenshot_quadview_execute_def Let_def)
  show "\<exists>a. find (\<lambda>a. area_type a = ''VIEW_3D'') (areas w) = Some a
           \<and> s_view3d_area self = Some a
           \<and> s_ui_was_visible self = show_region_ui (spaces w (spaces_active a))
           \<and> s_toolbar_was_visible self = show_region_toolbar (spaces w (spaces_active a))"
    using a self by (simp add: m)
  show "space_data w1 = space_data w" by (simp add: w1 flag_simps m)
  show "show_gizmo (spaces w1 s)
           = (if space_data w = Some s then map_option (\<lambda>old. False) (show_gizmo (spaces w s))
              else show_gizmo (spaces w s))" for s
    by (simp add: w1 flag_simps m)
  show "show_region_tool_header (spaces w1 s)
           = (if space_data w = Some s
              then map_option (\<lambda>old. False) (show_region_tool_header (spaces w s))
              else show_region_tool_header (spaces w s))" for s
    by (simp add: w1 flag_simps m)
  show "\<not> show_region_ui (spaces w1 (spaces_active b))
           \<and> \<not> show_region_toolbar (spaces w1 (spaces_active b))"
    if "s_view3d_area self = Some b" for b
    using that self(1) by (simp add: w1 flag_simps)
qed

text \<open>
  C4, as the code has it. On the timer event after a single-frame capture was requested,
  \<open>modal\<close> answers \<open>FINISHED\<close>, and the sidebar and toolbar flags of the viewport's active
  space are what they were before the request. The gizmo and tool-header flags of the
  context's space, where it has them, are switched on, whatever they were before.
\<close>

theorem screenshot_restores_region_flags:
  assumes "screenshot_quadview_execute w = (Inr RUNNING_MODAL, self, w1)"
    and "screenshot_quadview_modal ''TIMER'' (self, w1) = (r, self', w2)"
  shows "r = Inr FINISHED
       \<and> (\<exists>a. find (\<lambda>a. area_type a = ''VIEW_3D'') (areas w) = Some a
              \<and> show_region_ui (spaces w2 (spaces_active a))
                   = show_region_ui (spaces w (spaces_active a))
              \<and> show_region_toolbar (spaces w2 (spaces_active a))
                   = show_region_toolbar (spaces w (spaces_active a)))
       \<and> (case space_data w of
             None \<Rightarrow> True
           | Some c \<Rightarrow>
               show_gizmo (spaces w2 c) = map_option (\<lambda>old. True) (show_gizmo (spaces w c))
               \<and> show_region_tool_header (spaces w2 c)
                    = map_option (\<lambda>old. True) (show_region_tool_header (spaces w c)))"
proof -
  note e = screenshot_execute_running [OF assms(1)]
  from e(1) obtain a where
    a: "find (\<lambda>a. area_type a = ''VIEW_3D'') (areas w) = Some a"
      "s_view3d_area self = Some a"
      "s_ui_was_visible self = show_region_ui (spaces w (spaces_active a))"
      "s_toolbar_was_visible self = show_region_toolbar (spaces w (spaces_active a))"
    by blast
  let ?sp = "spaces_active a"
  have r: "r = Inr FINISHED"
    and w2: "w2 = report INFO (''Image saved: '' @ s_file_path self)
              (call View_layer_update
                (set_show_region_tool_header True (set_show_gizmo True
                  (set_region_flags ?sp (s_ui_was_visible self) (s_toolbar_was_visible self)
                    (screenshot_area (s_view3d_area self) (s_region_window self) (s_file_path self)
                      (call Event_timer_remove w1))))))"
    using assms(2) a(2) by (auto simp: screenshot_quadview_modal_def Let_def)
  have ui: "show_region_ui (spaces w2 ?sp) = show_region_ui (spaces w ?sp)"
    "show_region_toolbar (spaces w2 ?sp) = show_region_toolbar (spaces w ?sp)"
    by (simp_all add: w2 flag_simps a)
  have gz: "show_gizmo (spaces w2 c) = map_option (\<lambda>old. True) (show_gizmo (spaces w c))
          \<and> show_region_tool_header (spaces w2 c)
                = map_option (\<lambda>old. True) (show_region_tool_header (spaces w c))"
    if "space_data w = Some c" for c
    using that by (simp add: w2 flag_simps e(2,3,4) option.map_comp comp_def)
  show ?thesis
    using r a(1) ui gz by (auto split: option.splits)
qed

lemma demo_screenshot_execute:
  "fst (screenshot_quadview_execute demo_gizmo_off) = Inr RUNNING_MODAL"
  by code_simp

lemma demo_screenshot_flags:
  "show_region_ui (spaces demo_gizmo_off 0)" "\<not> show_region_toolbar (spaces demo_gizmo_off 0)"
  "show_gizmo (spaces demo_gizmo_off 0) = Some False"
  "show_region_tool_header (spaces demo_gizmo_off 0) = Some False"
  "space_data demo_gizmo_off = Some 0"
  "find (\<lambda>a. area_type a = ''VIEW_3D'') (areas demo_gizmo_off) = Some demo_area"
  "spaces_active demo_area = 0"
  by (simp_all add: demo_gizmo_off_def demo_world_def demo_space_def demo_area_def)

theorem screenshot_restores_region_flags_witness:
  "fst (screenshot_quadview_execute demo_gizmo_off) = Inr RUNNING_MODAL
   \<and> fst (screenshot_quadview_modal ''TIMER'' (snd (screenshot_quadview_execute demo_gizmo_off)))
       = Inr FINISHED
   \<and> show_region_ui (spaces (snd (snd (screenshot_quadview_modal ''TIMER''
         (snd (screenshot_quadview_execute demo_gizmo_off))))) 0)
   \<and> \<not> show_region_toolbar (spaces (snd (snd (screenshot_quadview_modal ''TIMER''
         (snd (screenshot_quadview_execute demo_gizmo_off))))) 0)
   \<and> show_gizmo (spaces (snd (snd (screenshot_quadview_modal ''TIMER''
         (snd (screenshot_quadview_execute demo_gizmo_off))))) 0) = Some True"
proof -
  obtain self w1 where e: "snd (screenshot_quadview_execute demo_gizmo_off) = (self, w1)"
    by (cases "snd (screenshot_quadview_execute demo_gizmo_off)")
  obtain r self' w2 where m: "screenshot_quadview_modal ''TIMER'' (self, w1) = (r, self', w2)"
    by (cases "screenshot_quadview_modal ''TIMER'' (self, w1)")
  have x: "screenshot_quadview_execute demo_gizmo_off = (Inr RUNNING_MODAL, self, w1)"
    using demo_screenshot_execute e by (simp add: prod_eq_iff)
  show ?thesis
    using screenshot_restores_region_flags [OF x m] demo_screenshot_execute
    by (simp add: e m demo_screenshot_flags)
qed

text \<open>
  C4 as stated fails: with the gizmos switched off before the capture, they are switched
  on after it.
\<close>

theorem screenshot_gizmo_not_restored:
  "fst (screenshot_quadview_capture demo_gizmo_off) = Inr FINISHED
   \<and> show_gizmo (spaces demo_gizmo_off 0) = Some False
   \<and> show_gizmo (spaces (snd (snd (screenshot_quadview_capture demo_gizmo_off))) 0) = Some True
   \<and> show_region_tool_header (spaces demo_gizmo_off 0) = Some False
   \<and> show_region_tool_header (spaces (snd (snd (screenshot_quadview_capture demo_gizmo_off))) 0)
       = Some True"
  by code_simp

subsection \<open>Frame numbers in file names\<close>

lemma digit_table:
  "\<forall>d \<in> set [0..<10]. digit_value (digit_char d) = d \<and> digit_char d \<noteq> CHR ''-''"
  by code_simp

lemma digit_value_digit_char:
  assumes "d < 10"
  shows "digit_value (digit_char d) = d"
  using assms digit_table by simp

lemma digit_char_not_minus: "digit_char d \<noteq> CHR ''-''"
proof -
  have "digit_char d = digit_char (d mod 10)" by (simp add: digit_char_def)
  moreover have "d mod 10 \<in> set [0..<10]" by simp
  ultimately show ?thesis using digit_table by metis
qed

lemma parse_nat_snoc: "parse_nat (s @ [c]) = 10 * parse_nat s + digit_value c"
  by (simp add: parse_nat_def)

lemma parse_nat_digits: "parse_nat (digits n) = n"
proof (induction n rule: digits.induct)
  case (1 n)
  show ?case
  proof (cases "n < 10")
    case True
    then show ?thesis
      by (simp add: digits.simps [of n] parse_nat_def digit_value_digit_char)
  next
    case False
    with 1 have "parse_nat (digits (n div 10)) = n div 10" by simp
    with False show ?thesis
      by (simp add: digits.simps [of n] parse_nat_snoc digit_value_digit_char)
  qed
qed

lemma parse_nat_zeros: "parse_nat (replicate k CHR ''0'' @ s) = parse_nat s"
proof -
  have "foldl (\<lambda>a c. 10 * a + digit_value c) 0 (replicate k CHR ''0'') = 0"
    by (induction k) (simp_all add: digit_value_def)
  then show ?thesis by (simp add: parse_nat_def)
qed

lemma digits_nonempty: "digits n \<noteq> []"
  by (simp add: digits.simps [of n])

lemma hd_digits_not_minus: "hd (digits n) \<noteq> CHR ''-''"
proof (induction n rule: digits.induct)
  case (1 n)
  show ?case
  proof (cases "n < 10")
    case True
    then show ?thesis by (simp add: digits.simps [of n] digit_char_not_minus)
  next
    case False
    with 1 show ?thesis
      by (simp add: digits.simps [of n] digits_nonempty)
  qed
qed

lemma parse_int_format_04d: "parse_int (format_04d n) = n"
proof (cases "n < 0")
  case True
  then show ?thesis
    by (simp add: format_04d_def parse_int_def parse_nat_zeros parse_nat_digits)
next
  case False
  let ?s = "replicate (4 - length (digits (nat n))) CHR ''0'' @ digits (nat n)"
  have ne: "?s \<noteq> []" by (simp add: digits_nonempty)
  have "hd ?s \<noteq> CHR ''-''"
    by (cases "4 - length (digits (nat n))") (simp_all add: hd_digits_not_minus)
  with ne have "parse_int ?s = int (parse_nat ?s)"
    by (cases ?s) (simp_all add: parse_int_def)
  with False show ?thesis
    by (simp add: format_04d_def parse_nat_zeros parse_nat_digits)
qed

lemma inj_format_04d: "inj format_04d"
  by (rule inj_on_inverseI [where g = parse_int]) (rule parse_int_format_04d)

lemma inj_frame_filename: "inj frame_filename"
proof (rule injI)
  fix a b assume "frame_filename a = frame_filename b"
  then have "format_04d a = format_04d b" by (simp add: frame_filename_def)
  then show "a = b" using inj_format_04d by (simp add: inj_def)
qed

text \<open>Frame numbers from 0 to 9999 are written with exactly four characters.\<close>

lemma length_digits: "n < 10 ^ k \<Longrightarrow> 0 < k \<Longrightarrow> length (digits n) \<le> k"
proof (induction n arbitrary: k rule: digits.induct)
  case (1 n)
  show ?case
  proof (cases "n < 10")
    case True
    with 1(3) show ?thesis by (simp add: digits.simps [of n])
  next
    case False
    obtain j where k: "k = Suc j" using 1(3) by (cases k) auto
    from False 1(2) k have j: "0 < j" by (cases j) auto
    from 1(2) k have "n div 10 < 10 ^ j" by (simp add: less_mult_imp_div_less mult.commute)
    with 1(1) [OF False this j] False k show ?thesis
      by (simp add: digits.simps [of n])
  qed
qed

lemma format_04d_four:
  assumes "0 \<le> n" and "n \<le> 9999"
  shows "length (format_04d n) = 4"
proof -
  have "nat n < 10 ^ 4" using assms by simp
  then have "length (digits (nat n)) \<le> 4" by (rule length_digits) simp
  with assms show ?thesis by (simp add: format_04d_def)
qed

subsection \<open>Paths of frame files\<close>

lemma rfind_last_slash:
  assumes "CHR ''/'' \<notin> set n"
  shows "rfind (a @ CHR ''/'' # n) CHR ''/'' = int (length a)"
proof -
  have "takeWhile (\<lambda>x. x \<noteq> CHR ''/'') (rev n @ CHR ''/'' # rev a) = rev n"
    using assms by (auto simp: takeWhile_tail)
  then show ?thesis by (simp add: rfind_def)
qed

lemma basename_join:
  assumes "CHR ''/'' \<notin> set n"
  shows "basename (a @ CHR ''/'' # n) = n"
proof -
  have "nat (int (length a) + 1) = Suc (length a)" by simp
  then show ?thesis by (simp add: basename_def rfind_last_slash [OF assms])
qed

lemma dirname_join:
  assumes "CHR ''/'' \<notin> set n" and "a \<noteq> []" and "last a \<noteq> CHR ''/''"
  shows "dirname (a @ CHR ''/'' # n) = a"
proof -
  have "nat (int (length a) + 1) = Suc (length a)" by simp
  then have h: "take (nat (rfind (a @ CHR ''/'' # n) CHR ''/'' + 1)) (a @ CHR ''/'' # n) = a @ ''/''"
    by (simp add: rfind_last_slash [OF assms(1)])
  have "last a \<in> set (a @ ''/'')" using assms(2) by simp
  moreover have "last a \<notin> set (replicate (length (a @ ''/'')) CHR ''/'')"
    using assms(3) by simp
  ultimately have ne: "a @ ''/'' \<noteq> replicate (length (a @ ''/'')) CHR ''/''" by metis
  have "hd (rev a) \<noteq> CHR ''/''" using assms(2,3) by (simp add: hd_rev)
  then have "dropWhile (\<lambda>x. x = CHR ''/'') (rev a) = rev a"
    using assms(2) by (cases "rev a") auto
  then have rs: "rstrip (a @ ''/'') CHR ''/'' = a" by (simp add: rstrip_def)
  have "dirname (a @ CHR ''/'' # n)
          = (if a @ ''/'' \<noteq> [] \<and> a @ ''/'' \<noteq> replicate (length (a @ ''/'')) CHR ''/''
             then rstrip (a @ ''/'') CHR ''/'' else a @ ''/'')"
    unfolding dirname_def Let_def h ..
  also have "\<dots> = a" using ne rs by simp
  finally show ?thesis .
qed

lemma folder_temp_of_shape: "\<exists>y. folder_temp_of u = y @ ''_temp''"
proof -
  have "\<exists>y. path_join a (b @ ''_temp'') = y @ ''_temp''" for a b
  proof -
    have "path_join a (b @ ''_temp'') = b @ ''_temp''
          \<or> path_join a (b @ ''_temp'') = (a @ b) @ ''_temp''
          \<or> path_join a (b @ ''_temp'') = (a @ ''/'' @ b) @ ''_temp''"
      by (simp add: path_join_def)
    then show ?thesis by blast
  qed
  then show ?thesis by (simp add: folder_temp_of_def Let_def)
qed

lemma slash_not_in_digits: "CHR ''/'' \<notin> set (digits n)"
proof (induction n rule: digits.induct)
  case (1 n)
  have d: "CHR ''/'' \<noteq> digit_char k" for k
  proof -
    have "\<forall>d \<in> set [0..<10]. CHR ''/'' \<noteq> digit_char d" by code_simp
    moreover have "digit_char k = digit_char (k mod 10)" by (simp add: digit_char_def)
    moreover have "k mod 10 \<in> set [0..<10]" by simp
    ultimately show ?thesis by metis
  qed
  show ?case
  proof (cases "n < 10")
    case True
    then show ?thesis by (simp add: digits.simps [of n] d)
  next
    case False
    with 1 show ?thesis by (simp add: digits.simps [of n] d)
  qed
qed

lemma slash_not_in_frame_filename: "CHR ''/'' \<notin> set (frame_filename k)"
  by (simp add: frame_filename_def format_04d_def slash_not_in_digits)

text \<open>A frame file lies in the frame directory, under its own name.\<close>

lemma frame_path:
  "path_join (folder_temp_of u) (frame_filename k) = folder_temp_of u @ CHR ''/'' # frame_filename k"
  "dirname (path_join (folder_temp_of u) (frame_filename k)) = folder_temp_of u"
  "basename (path_join (folder_temp_of u) (frame_filename k)) = frame_filename k"
proof -
  obtain y where y: "folder_temp_of u = y @ ''_temp''" using folder_temp_of_shape by blast
  have s: "\<not> startswith (frame_filename k) ''/''"
    by (simp add: startswith_def frame_filename_def)
  have e: "\<not> endswith (folder_temp_of u) ''/''" by (simp add: endswith_def y)
  show j: "path_join (folder_temp_of u) (frame_filename k)
             = folder_temp_of u @ CHR ''/'' # frame_filename k"
    using s e by (simp add: path_join_def y)
  have l: "folder_temp_of u \<noteq> []" "last (folder_temp_of u) \<noteq> CHR ''/''" by (simp_all add: y)
  show "dirname (path_join (folder_temp_of u) (frame_filename k)) = folder_temp_of u"
    unfolding j by (rule dirname_join [OF slash_not_in_frame_filename l])
  show "basename (path_join (folder_temp_of u) (frame_filename k)) = frame_filename k"
    unfolding j by (rule basename_join [OF slash_not_in_frame_filename])
qed

lemma distinct_frame_paths:
  "distinct (map (\<lambda>k. path_join (folder_temp_of u) (frame_filename k)) [i..j])"
proof -
  have "inj (\<lambda>k. path_join (folder_temp_of u) (frame_filename k))"
    using inj_frame_filename by (simp add: inj_def frame_path(1))
  then show ?thesis by (simp add: distinct_map inj_on_def inj_def)
qed

subsection \<open>The log of screenshots\<close>

lemma screenshot_paths_append:
  "screenshot_paths (xs @ ys) = screenshot_paths xs @ screenshot_paths ys"
  by (induction xs rule: screenshot_paths.induct) simp_all

lemma calls_frame:
  "calls (call c w) = calls w @ [c]"
  "calls (set_region_flags sp u t w) = calls w"
  "calls (set_show_gizmo b w) = calls w"
  "calls (set_show_region_tool_header b w) = calls w"
  "calls (frame_set n w) = calls w @ [Frame_set n]"
  "calls (screenshot_area a r p w) = calls w @ [Screenshot_area a r p]"
  by (simp_all add: call_def set_region_flags_def set_show_gizmo_def
      set_show_region_tool_header_def frame_set_def screenshot_area_def split: option.splits)

lemma makedirs_calls:
  assumes "makedirs p w = Inr w'"
  shows "calls w' = calls w"
  using assms by (auto simp: makedirs_def split: if_splits option.splits node.splits)

lemma combine_encode_calls:
  assumes "combine_encode i fp imgs w = (r, w')"
  shows "screenshot_paths (calls w') = screenshot_paths (calls w)"
  using assms
  by (auto simp: combine_encode_def Let_def update_scene_frame call_def screenshot_paths_append
      split: option.splits)

lemma rmtree_calls:
  assumes "rmtree p w = Inr w'"
  shows "calls w' = calls w"
  using assms by (auto simp: rmtree_def split: option.splits node.splits)

lemma combine_failed_calls: "calls (snd (combine_failed e w)) = calls w"
proof (cases "remove_video_scene (report ERROR (''Error creating video: '' @ e) w)")
  case (Inl x)
  then show ?thesis by (simp add: combine_failed_def Let_def report_frame)
next
  case (Inr v)
  from remove_video_scene_Inr(6) [OF Inr] Inr show ?thesis
    by (simp add: combine_failed_def Let_def report_frame)
qed

lemma combine_finish_calls: "calls (snd (combine_finish u tmp w)) = calls w"
proof -
  define w1 where "w1 = (case rmtree tmp w of
                  Inr w' \<Rightarrow> report INFO ''Temporary image folder deleted'' w'
                | Inl e \<Rightarrow> report WARNING (''Could not delete temp folder: '' @ e) w)"
  have c1: "calls w1 = calls w"
    by (cases "rmtree tmp w") (simp_all add: w1_def report_frame rmtree_calls)
  show ?thesis
  proof (cases "remove_video_scene w1")
    case (Inl x)
    then show ?thesis using c1 by (simp add: combine_finish_def Let_def w1_def [symmetric])
  next
    case (Inr v)
    from remove_video_scene_Inr(6) [OF Inr] Inr c1 show ?thesis
      by (simp add: combine_finish_def Let_def w1_def [symmetric] report_frame)
  qed
qed

lemma combine_images_calls:
  "screenshot_paths (calls (snd (combine_images u tmp a b w))) = screenshot_paths (calls w)"
proof (cases "images w (path_join tmp a)")
  case None
  then show ?thesis by (simp add: combine_images_def)
next
  case (Some sz)
  obtain iw ih where sz: "sz = (iw, ih)" by (cases sz)
  show ?thesis
  proof (cases "combine_prepare u (a # b) iw ih w")
    case (Inl e)
    with Some sz show ?thesis by (simp add: combine_images_def)
  next
    case (Inr iv)
    obtain i w1 where iv: "iv = (i, w1)" by (cases iv)
    note p = combine_prepare_Inr [OF Inr [unfolded iv]]
    obtain x w2 where enc: "combine_encode i (path_join tmp a) (a # b) w1 = (x, w2)"
      by (cases "combine_encode i (path_join tmp a) (a # b) w1")
    have c2: "screenshot_paths (calls w2) = screenshot_paths (calls w)"
      using combine_encode_calls [OF enc] by (simp add: p)
    show ?thesis
      using Some sz Inr iv enc c2
      by (cases x) (simp_all add: combine_images_def combine_failed_calls combine_finish_calls)
  qed
qed

lemma combine_execute_calls:
  "screenshot_paths (calls (snd (combine_images_to_video_execute w))) = screenshot_paths (calls w)"
  by (simp add: combine_images_to_video_execute_def Let_def report_frame combine_images_calls
      split: sum.splits list.splits)

subsection \<open>The render the combiner invokes\<close>

lemma combine_encode_render:
  assumes "combine_encode i fp imgs w = (r, w')"
    and "raises w G_new_image = None"
    and "scene_at i w = Some s"
  shows "\<exists>s'. calls w' = calls w @ [Render_render (Some s')]
              \<and> render s' = render s \<and> scene_name s' = scene_name s"
proof -
  let ?st = "\<lparr> strip_name = ''QuadViewImages'', strip_filepath = fp, strip_channel = 1,
               strip_frame_start = 1, strip_elements = basename fp # tl imgs,
               frame_final_duration = int (length imgs) \<rparr>"
  let ?f = "\<lambda>s. s\<lparr>sequence_editor :=
                  (case sequence_editor s of None \<Rightarrow> Some [?st] | Some ss \<Rightarrow> Some (ss @ [?st]))\<rparr>"
  let ?w2 = "update_scene i ?f (w\<lparr>window_scene := video_scene_name\<rparr>)"
  have "scene_at i (w\<lparr>window_scene := video_scene_name\<rparr>) = Some s"
    using assms(3) by (simp add: scene_at_def split: if_splits)
  then have at: "scene_at i ?w2 = Some (?f s)" by (simp add: scene_at_update_scene)
  have "calls w' = calls w @ [Render_render (scene_at i ?w2)]"
    using assms(1,2)
    by (auto simp: combine_encode_def Let_def update_scene_frame call_def split: option.splits)
  with at show ?thesis by simp
qed

lemma clamp_resolution_id: "4 \<le> v \<Longrightarrow> v \<le> 65536 \<Longrightarrow> clamp_resolution v = v"
  by (simp add: clamp_resolution_def)

lemma round_even_even: "round_even k = (if even k then k else k + 1)"
  by (simp add: round_even_def even_iff_mod_2_eq_zero)

text \<open>
  C1. Let the combiner get past its checks and load the first frame, \<open>n\<close> by \<open>m\<close> pixels.
  It rounds each dimension up to the next even number (for every integer \<open>k\<close>, \<open>k\<close> itself
  when \<open>k\<close> is even and \<open>k + 1\<close> when \<open>k\<close> is odd) before it creates the render scene, and
  assigns the rounded dimensions to the resolution of that scene, which is the scene it
  then has the host render. The host stores what is assigned within its range of
  resolutions; for dimensions from 3 to 65536 that is the rounded dimension itself.
\<close>

theorem combine_rounds_dimensions:
  assumes "tmp = folder_temp_of (abspath w (render_filepath (qp_props (scene w))))"
    and "fs w tmp = Some (Dir es)"
    and "sort (filter (\<lambda>f. endswith f ''.png'') es) = first_image # more_images"
    and "images w (path_join tmp first_image) = Some (n, m)"
    and "scene_name (scene w) \<noteq> video_scene_name"
    and "raises w G_new_image = None"
  shows "\<exists>s. calls (snd (combine_images_to_video_execute w)) = calls w @ [Render_render (Some s)]
            \<and> scene_name s = video_scene_name
            \<and> resolution_x (render s) = clamp_resolution (if even n then n else n + 1)
            \<and> resolution_y (render s) = clamp_resolution (if even m then m else m + 1)
            \<and> (3 \<le> n \<and> n \<le> 65536 \<longrightarrow> resolution_x (render s) = (if even n then n else n + 1))
            \<and> (3 \<le> m \<and> m \<le> 65536 \<longrightarrow> resolution_y (render s) = (if even m then m else m + 1))
            \<and> round_even k = (if even k then k else k + 1)"
proof -
  let ?u = "abspath w (render_filepath (qp_props (scene w)))"
  let ?imgs = "first_image # more_images"
  let ?fp = "path_join tmp first_image"
  have "path_exists w tmp"
    using assms(1,2) by (simp add: path_exists_def folder_temp_of_nonempty)
  then have ex: "combine_images_to_video_execute w = combine_images ?u tmp first_image more_images w"
    using assms(1-3) by (simp add: combine_images_to_video_execute_def Let_def listdir_def)
  have "combine_prepare ?u ?imgs n m w \<noteq> Inl e" for e
    using combine_prepare_Inl assms(5) by blast
  then obtain i w1 where p: "combine_prepare ?u ?imgs n m w = Inr (i, w1)"
    by (cases "combine_prepare ?u ?imgs n m w") auto
  note pf = combine_prepare_Inr [OF p]
  from pf(8) obtain s where s: "scene_at i w1 = Some s" "scene_name s = video_scene_name"
    "resolution_x (render s) = clamp_resolution (round_even n)"
    "resolution_y (render s) = clamp_resolution (round_even m)"
    by blast
  obtain x w2 where enc: "combine_encode i ?fp ?imgs w1 = (x, w2)"
    by (cases "combine_encode i ?fp ?imgs w1")
  have "raises w1 G_new_image = None" using assms(6) by (simp add: pf)
  from combine_encode_render [OF enc this s(1)] obtain s' where
    s': "calls w2 = calls w @ [Render_render (Some s')]" "render s' = render s"
      "scene_name s' = scene_name s"
    by (auto simp: pf)
  have "calls (snd (combine_images ?u tmp first_image more_images w)) = calls w2"
    using assms(4) p enc
    by (cases x) (simp_all add: combine_images_def combine_failed_calls combine_finish_calls)
  with ex s' have c: "calls (snd (combine_images_to_video_execute w))
                        = calls w @ [Render_render (Some s')]"
    by simp
  have rx: "resolution_x (render s') = clamp_resolution (if even n then n else n + 1)"
    and ry: "resolution_y (render s') = clamp_resolution (if even m then m else m + 1)"
    using s s' by (simp_all add: round_even_even)
  have ex_x: "resolution_x (render s') = (if even n then n else n + 1)" if "3 \<le> n" "n \<le> 65536"
  proof -
    have "4 \<le> (if even n then n else n + 1)" "(if even n then n else n + 1) \<le> 65536"
      using that by (auto elim: oddE)
    then show ?thesis unfolding rx by (rule clamp_resolution_id)
  qed
  have ex_y: "resolution_y (render s') = (if even m then m else m + 1)" if "3 \<le> m" "m \<le> 65536"
  proof -
    have "4 \<le> (if even m then m else m + 1)" "(if even m then m else m + 1) \<le> 65536"
      using that by (auto elim: oddE)
    then show ?thesis unfolding ry by (rule clamp_resolution_id)
  qed
  show ?thesis
    using c s'(3) s(2) rx ry ex_x ex_y round_even_even [of k] by auto
qed

lemma demo_captured_images:
  "sort (filter (\<lambda>f. endswith f ''.png'') [''notes.txt'', ''quadview_frame_0001.png''])
     = [''quadview_frame_0001.png'']"
  "images demo_captured (path_join ''/out/quadview_render_temp'' ''quadview_frame_0001.png'')
     = Some (101, 51)"
  "scene_name (scene demo_captured) \<noteq> video_scene_name"
  "raises demo_captured G_new_image = None"
  "calls demo_captured = []"
  by code_simp+

lemma demo_tiny_facts:
  "''/out/quadview_render_temp''
     = folder_temp_of (abspath demo_tiny (render_filepath (qp_props (scene demo_tiny))))"
  "fs demo_tiny ''/out/quadview_render_temp'' = Some (Dir [''notes.txt'', ''quadview_frame_0001.png''])"
  "images demo_tiny (path_join ''/out/quadview_render_temp'' ''quadview_frame_0001.png'')
     = Some (1, 1)"
  "scene_name (scene demo_tiny) \<noteq> video_scene_name"
  "raises demo_tiny G_new_image = None"
  "calls demo_tiny = []"
  by code_simp+

theorem combine_rounds_dimensions_witness:
  "(\<exists>s. calls (snd (combine_images_to_video_execute demo_captured)) = [Render_render (Some s)]
       \<and> scene_name s = ''CombineVideoScene''
       \<and> resolution_x (render s) = 102 \<and> resolution_y (render s) = 52)
   \<and> (\<exists>s. calls (snd (combine_images_to_video_execute demo_tiny)) = [Render_render (Some s)]
       \<and> resolution_x (render s) = 4 \<and> resolution_y (render s) = 4)"
proof -
  have "\<exists>s. calls (snd (combine_images_to_video_execute demo_captured)) = [Render_render (Some s)]
       \<and> scene_name s = ''CombineVideoScene''
       \<and> resolution_x (render s) = 102 \<and> resolution_y (render s) = 52"
    using combine_rounds_dimensions [OF demo_captured_facts(1) demo_captured_facts(4)
            demo_captured_images(1-4), of 101]
    by (auto simp: demo_captured_images(5) video_scene_name_def)
  moreover
  have "\<exists>s. calls (snd (combine_images_to_video_execute demo_tiny)) = [Render_render (Some s)]
       \<and> resolution_x (render s) = 4 \<and> resolution_y (render s) = 4"
    using combine_rounds_dimensions [OF demo_tiny_facts(1,2) demo_captured_images(1)
            demo_tiny_facts(3-5), of 1]
    by (auto simp: demo_tiny_facts(6) clamp_resolution_def)
  ultimately show ?thesis by blast
qed

subsection \<open>The animation capture sequencer\<close>

text \<open>What \<open>execute\<close> leaves when it answers \<open>RUNNING_MODAL\<close>.\<close>

lemma anim_execute_running:
  assumes "screenshot_quadview_anim_execute w = (Inr RUNNING_MODAL, self, w1)"
  shows "a_wait_frames self = 2"
    and "a_frame_current self = frame_start (scene w)"
    and "a_frame_end self = frame_end (scene w)"
    and "a_folder_path self = folder_temp_of (abspath w (render_filepath (qp_props (scene w))))"
    and "screenshot_paths (calls w1) = screenshot_paths (calls w)"
proof -
  let ?w1 = "frame_set 1 w"
  let ?tmp = "folder_temp_of (abspath ?w1 (render_filepath (qp_props (scene ?w1))))"
  from assms obtain a j v where
    a: "find (\<lambda>a. area_type a = ''VIEW_3D'') (areas w) = Some a"
    and j: "first_index (\<lambda>r. r = ''WINDOW'') (regions a) = Some j"
    and v: "makedirs ?tmp ?w1 = Inr v"
    by (auto simp: screenshot_quadview_anim_execute_def Let_def
        split: option.splits sum.splits)
  have t: "?tmp = folder_temp_of (abspath w (render_filepath (qp_props (scene w))))"
    by (simp add: frame_set_def call_def abspath_def)
  have s: "frame_start (scene ?w1) = frame_start (scene w)"
    "frame_end (scene ?w1) = frame_end (scene w)"
    by (simp_all add: frame_set_def call_def)
  have w1: "w1 = call (Event_timer_add 50) (call Modal_handler_add (call View_layer_update
              (set_show_region_tool_header False (set_show_gizmo False
                (set_region_flags (spaces_active a) False False v)))))"
    using assms a j v by (auto simp: screenshot_quadview_anim_execute_def Let_def)
  show "a_wait_frames self = 2" "a_frame_current self = frame_start (scene w)"
    "a_frame_end self = frame_end (scene w)"
    using assms a j v s by (auto simp: screenshot_quadview_anim_execute_def Let_def)
  show "a_folder_path self = folder_temp_of (abspath w (render_filepath (qp_props (scene w))))"
    using assms a j v t by (auto simp: screenshot_quadview_anim_execute_def Let_def)
  show "screenshot_paths (calls w1) = screenshot_paths (calls w)"
    by (simp add: w1 calls_frame makedirs_calls [OF v] screenshot_paths_append)
qed

text \<open>The four kinds of step of \<open>modal\<close>.\<close>

lemma anim_modal_other:
  assumes "e \<noteq> ''TIMER''"
  shows "screenshot_quadview_anim_modal e sw = (Inr RUNNING_MODAL, sw)"
  using assms by (cases sw) (simp add: screenshot_quadview_anim_modal_def)

lemma anim_modal_warmup:
  assumes "0 < a_wait_frames self"
  shows "screenshot_quadview_anim_modal ''TIMER'' (self, w)
           = (Inr RUNNING_MODAL, self\<lparr>a_wait_frames := a_wait_frames self - 1\<rparr>, w)"
  using assms by (simp add: screenshot_quadview_anim_modal_def)

lemma anim_modal_capture:
  assumes "a_wait_frames self \<le> 0" and "a_frame_current self \<le> a_frame_end self"
  shows "\<exists>w'. screenshot_quadview_anim_modal ''TIMER'' (self, w)
                = (Inr RUNNING_MODAL, self\<lparr>a_frame_current := a_frame_current self + 1\<rparr>, w')
           \<and> screenshot_paths (calls w')
                = screenshot_paths (calls w)
                  @ [path_join (a_folder_path self) (frame_filename (a_frame_current self))]"
  using assms
  by (simp add: screenshot_quadview_anim_modal_def Let_def calls_frame screenshot_paths_append)

lemma anim_modal_final:
  assumes "a_wait_frames self \<le> 0" and "a_frame_end self < a_frame_current self"
    and "screenshot_quadview_anim_modal ''TIMER'' (self, w) = (r, self', w')"
  shows "r \<noteq> Inr RUNNING_MODAL"
    and "screenshot_paths (calls w') = screenshot_paths (calls w)"
proof -
  show "r \<noteq> Inr RUNNING_MODAL"
    using assms
    by (auto simp: screenshot_quadview_anim_modal_def Let_def split: option.splits prod.splits sum.splits)
  show "screenshot_paths (calls w') = screenshot_paths (calls w)"
  proof (cases "a_view3d_area self")
    case None
    with assms show ?thesis by (simp add: screenshot_quadview_anim_modal_def)
  next
    case (Some a)
    define w6 where "w6 = report INFO (''Finished video with ''
                           @ str_int (a_frame_end self - a_frame_start self + 1) @ '' frames.'')
              (call Event_timer_remove (call View_layer_update
                (set_show_region_tool_header True (set_show_gizmo True
                  (set_region_flags (spaces_active a) (a_ui_was_visible self)
                     (a_toolbar_was_visible self) w)))))"
    have c6: "screenshot_paths (calls w6) = screenshot_paths (calls w)"
      by (simp add: w6_def report_frame calls_frame screenshot_paths_append)
    have "w' = snd (combine_images_to_video_execute w6)"
      using assms Some
      by (auto simp: screenshot_quadview_anim_modal_def Let_def w6_def split: prod.splits sum.splits)
    then show ?thesis using c6 by (simp add: combine_execute_calls)
  qed
qed

text \<open>Events other than timer events change nothing.\<close>

lemma anim_run_timers:
  "anim_run events sw = anim_run (filter (\<lambda>e. e = ''TIMER'') events) sw"
proof (induction events arbitrary: sw)
  case Nil
  show ?case by simp
next
  case (Cons e es)
  show ?case
  proof (cases "e = ''TIMER''")
    case True
    with Cons show ?thesis by (simp split: prod.splits sum.splits status.splits)
  next
    case False
    with Cons show ?thesis by (simp add: anim_modal_other)
  qed
qed

text \<open>The capture phase: with \<open>k\<close> frames left and more than \<open>k\<close> timer events to come,
  the run ends, and exactly the \<open>k\<close> frames were captured.\<close>

lemma anim_run_capture:
  assumes "a_wait_frames self \<le> 0"
    and "a_frame_end self - a_frame_current self + 1 = int k"
    and "k < m"
    and "anim_run (replicate m ''TIMER'') (self, w) = (r, self', w')"
  shows "r \<noteq> Inr RUNNING_MODAL
       \<and> screenshot_paths (calls w')
           = screenshot_paths (calls w)
             @ map (\<lambda>n. path_join (a_folder_path self) (frame_filename n))
                 [a_frame_current self..a_frame_end self]"
  using assms
proof (induction k arbitrary: self w m)
  case 0
  then obtain m' where m: "m = Suc m'" by (cases m) auto
  from 0 have lt: "a_frame_end self < a_frame_current self" by simp
  obtain r1 s1 w1 where st: "screenshot_quadview_anim_modal ''TIMER'' (self, w) = (r1, s1, w1)"
    by (cases "screenshot_quadview_anim_modal ''TIMER'' (self, w)")
  note f = anim_modal_final [OF 0(1) lt st]
  from f(1) have "anim_run (replicate m ''TIMER'') (self, w) = (r1, s1, w1)"
    by (cases r1) (auto simp: m st split: status.splits)
  with 0(4) have "r = r1" "w' = w1" by simp_all
  with f lt show ?case by simp
next
  case (Suc k)
  then obtain m' where m: "m = Suc m'" and km: "k < m'" by (cases m) auto
  from Suc(3) have le: "a_frame_current self \<le> a_frame_end self" by simp
  from anim_modal_capture [OF Suc(2) le] obtain w1 where
    st: "screenshot_quadview_anim_modal ''TIMER'' (self, w)
           = (Inr RUNNING_MODAL, self\<lparr>a_frame_current := a_frame_current self + 1\<rparr>, w1)"
    and p1: "screenshot_paths (calls w1)
               = screenshot_paths (calls w)
                 @ [path_join (a_folder_path self) (frame_filename (a_frame_current self))]"
    by blast
  let ?s = "self\<lparr>a_frame_current := a_frame_current self + 1\<rparr>"
  have run: "anim_run (replicate m' ''TIMER'') (?s, w1) = (r, self', w')"
    using Suc(5) by (simp add: m st)
  have "r \<noteq> Inr RUNNING_MODAL
       \<and> screenshot_paths (calls w')
           = screenshot_paths (calls w1)
             @ map (\<lambda>n. path_join (a_folder_path ?s) (frame_filename n))
                 [a_frame_current ?s..a_frame_end ?s]"
  proof (rule Suc.IH [OF _ _ km run])
    show "a_wait_frames ?s \<le> 0" using Suc(2) by simp
    show "a_frame_end ?s - a_frame_current ?s + 1 = int k" using Suc(3) by simp
  qed
  moreover have "[a_frame_current self..a_frame_end self]
                   = a_frame_current self # [a_frame_current self + 1..a_frame_end self]"
    using le by (simp add: upto_rec1)
  ultimately show ?case by (simp add: p1)
qed

text \<open>The warm-up: the first two timer events are dropped.\<close>

lemma anim_run_warmup:
  assumes "a_wait_frames self = 2"
  shows "anim_run (replicate (Suc (Suc m)) ''TIMER'') (self, w)
           = anim_run (replicate m ''TIMER'') (self\<lparr>a_wait_frames := 0\<rparr>, w)"
proof -
  have 1: "screenshot_quadview_anim_modal ''TIMER'' (self, w)
             = (Inr RUNNING_MODAL, self\<lparr>a_wait_frames := 1\<rparr>, w)"
    using anim_modal_warmup [of self w] assms by simp
  have 2: "screenshot_quadview_anim_modal ''TIMER'' (self\<lparr>a_wait_frames := 1\<rparr>, w)
             = (Inr RUNNING_MODAL, self\<lparr>a_wait_frames := 0\<rparr>, w)"
    using anim_modal_warmup [of "self\<lparr>a_wait_frames := 1\<rparr>" w] by simp
  show ?thesis by (simp add: 1 2)
qed

lemma filter_timers:
  "filter (\<lambda>e. e = c) events = replicate (length (filter (\<lambda>e. e = c) events)) c"
  by (induction events) simp_all

text \<open>
  C2. Let the animation capture start on a scene whose frame range is \<open>[start, end]\<close> with
  \<open>start \<le> end\<close>, and let the host deliver its events, among them at least
  \<open>end - start + 4\<close> timer events (two to warm up, one per frame, one to finish). Then the
  run ends, and the screenshots taken in it are exactly the files
  \<open>quadview_frame_NNNN.png\<close> in the frame directory, one for each frame from \<open>start\<close> to
  \<open>end\<close> in this order, \<open>NNNN\<close> being the frame number padded with zeros to four digits:
  \<open>end - start + 1\<close> different files.
\<close>

theorem anim_writes_one_file_per_frame:
  assumes "screenshot_quadview_anim_execute w = (Inr RUNNING_MODAL, self, w1)"
    and "frame_start (scene w) \<le> frame_end (scene w)"
    and "tmp = folder_temp_of (abspath w (render_filepath (qp_props (scene w))))"
    and "nat (frame_end (scene w) - frame_start (scene w) + 1) + 3
           \<le> length (filter (\<lambda>e. e = ''TIMER'') events)"
    and "anim_run events (self, w1) = (r, self', w2)"
  shows "r \<noteq> Inr RUNNING_MODAL
       \<and> screenshot_paths (calls w2)
           = screenshot_paths (calls w)
             @ map (\<lambda>n. path_join tmp (frame_filename n)) [frame_start (scene w)..frame_end (scene w)]
       \<and> length (map (\<lambda>n. path_join tmp (frame_filename n))
                   [frame_start (scene w)..frame_end (scene w)])
           = nat (frame_end (scene w) - frame_start (scene w) + 1)
       \<and> distinct (map (\<lambda>n. path_join tmp (frame_filename n))
                     [frame_start (scene w)..frame_end (scene w)])
       \<and> map dirname (map (\<lambda>n. path_join tmp (frame_filename n))
                        [frame_start (scene w)..frame_end (scene w)])
           = replicate (nat (frame_end (scene w) - frame_start (scene w) + 1)) tmp
       \<and> map basename (map (\<lambda>n. path_join tmp (frame_filename n))
                         [frame_start (scene w)..frame_end (scene w)])
           = map frame_filename [frame_start (scene w)..frame_end (scene w)]"
proof -
  note e = anim_execute_running [OF assms(1)]
  let ?k = "nat (frame_end (scene w) - frame_start (scene w) + 1)"
  let ?m = "length (filter (\<lambda>e. e = ''TIMER'') events)"
  let ?s = "self\<lparr>a_wait_frames := 0\<rparr>"
  obtain m where m: "?m = Suc (Suc m)" and km: "?k < m"
    using assms(4) by (cases ?m rule: nat.exhaust [case_names z s]; cases "?m - 1")  auto
  have "anim_run events (self, w1) = anim_run (replicate ?m ''TIMER'') (self, w1)"
    using anim_run_timers [of events] filter_timers [of "''TIMER''" events] by simp
  also have "\<dots> = anim_run (replicate m ''TIMER'') (?s, w1)"
    unfolding m by (rule anim_run_warmup [OF e(1)])
  finally have run: "anim_run (replicate m ''TIMER'') (?s, w1) = (r, self', w2)"
    using assms(5) by simp
  have "r \<noteq> Inr RUNNING_MODAL
       \<and> screenshot_paths (calls w2)
           = screenshot_paths (calls w1)
             @ map (\<lambda>n. path_join (a_folder_path ?s) (frame_filename n))
                 [a_frame_current ?s..a_frame_end ?s]"
  proof (rule anim_run_capture [OF _ _ km run])
    show "a_wait_frames ?s \<le> 0" by simp
    show "a_frame_end ?s - a_frame_current ?s + 1 = int ?k" using assms(2) by (simp add: e)
  qed
  then have main: "r \<noteq> Inr RUNNING_MODAL"
    "screenshot_paths (calls w2)
           = screenshot_paths (calls w)
             @ map (\<lambda>n. path_join tmp (frame_filename n)) [frame_start (scene w)..frame_end (scene w)]"
    by (simp_all add: e assms(3))
  have d: "map dirname (map (\<lambda>n. path_join tmp (frame_filename n)) ns) = replicate (length ns) tmp"
    for ns
    by (induction ns) (simp_all add: assms(3) frame_path(2))
  have b: "map basename (map (\<lambda>n. path_join tmp (frame_filename n)) ns) = map frame_filename ns"
    for ns
    by (simp add: assms(3) frame_path(3))
  have l: "length [frame_start (scene w)..frame_end (scene w)] = ?k" by simp
  show ?thesis
    using main d [of "[frame_start (scene w)..frame_end (scene w)]"]
      b [of "[frame_start (scene w)..frame_end (scene w)]"]
      distinct_frame_paths [of "abspath w (render_filepath (qp_props (scene w)))"
        "frame_start (scene w)" "frame_end (scene w)"]
    by (simp add: assms(3) del: upto.simps map_map)
qed

lemma demo_anim_execute:
  "fst (screenshot_quadview_anim_execute demo_world) = Inr RUNNING_MODAL"
  by code_simp

lemma demo_frame_paths:
  "map (\<lambda>n. path_join ''/out/quadview_render_temp'' (frame_filename n)) [1..5] =
     [''/out/quadview_render_temp/quadview_frame_0001.png'',
      ''/out/quadview_render_temp/quadview_frame_0002.png'',
      ''/out/quadview_render_temp/quadview_frame_0003.png'',
      ''/out/quadview_render_temp/quadview_frame_0004.png'',
      ''/out/quadview_render_temp/quadview_frame_0005.png'']"
  by code_simp

theorem anim_writes_one_file_per_frame_witness:
  "fst (screenshot_quadview_anim_execute demo_world) = Inr RUNNING_MODAL
   \<and> frame_start (scene demo_world) = 1 \<and> frame_end (scene demo_world) = 5
   \<and> fst (anim_run (''MOUSEMOVE'' # replicate 8 ''TIMER'')
             (snd (screenshot_quadview_anim_execute demo_world))) \<noteq> Inr RUNNING_MODAL
   \<and> screenshot_paths (calls (snd (snd (anim_run (''MOUSEMOVE'' # replicate 8 ''TIMER'')
        (snd (screenshot_quadview_anim_execute demo_world)))))) =
     [''/out/quadview_render_temp/quadview_frame_0001.png'',
      ''/out/quadview_render_temp/quadview_frame_0002.png'',
      ''/out/quadview_render_temp/quadview_frame_0003.png'',
      ''/out/quadview_render_temp/quadview_frame_0004.png'',
      ''/out/quadview_render_temp/quadview_frame_0005.png'']"
proof -
  obtain self w1 where e: "snd (screenshot_quadview_anim_execute demo_world) = (self, w1)"
    by (cases "snd (screenshot_quadview_anim_execute demo_world)")
  obtain r self' w2 where
    run: "anim_run (''MOUSEMOVE'' # replicate 8 ''TIMER'') (self, w1) = (r, self', w2)"
    by (cases "anim_run (''MOUSEMOVE'' # replicate 8 ''TIMER'') (self, w1)")
  have x: "screenshot_quadview_anim_execute demo_world = (Inr RUNNING_MODAL, self, w1)"
    using demo_anim_execute e by (simp add: prod_eq_iff)
  have s: "frame_start (scene demo_world) = 1" "frame_end (scene demo_world) = 5"
    "calls demo_world = []"
    by (simp_all add: demo_world_def demo_scene_def)
  have le: "frame_start (scene demo_world) \<le> frame_end (scene demo_world)" by (simp add: s)
  have t: "nat (frame_end (scene demo_world) - frame_start (scene demo_world) + 1) + 3
             \<le> length (filter (\<lambda>e. e = ''TIMER'') (''MOUSEMOVE'' # replicate 8 ''TIMER''))"
    by (simp add: s)
  from anim_writes_one_file_per_frame [OF x le demo_folder_temp [symmetric] t run]
  have "r \<noteq> Inr RUNNING_MODAL"
    "screenshot_paths (calls w2)
       = map (\<lambda>n. path_join ''/out/quadview_render_temp'' (frame_filename n)) [1..5]"
    by (simp_all add: s del: upto.simps)
  then show ?thesis
    using demo_anim_execute unfolding e run
    by (simp add: s demo_frame_paths del: upto.simps anim_run.simps)
qed

end
